theory Spec2Isabelle
  imports Complex_Main
begin

section \<open>Rate limiting guard (src/common/guards/rate-limit.guard.ts)\<close>

text \<open>
  The guard keeps one process-wide \<^verbatim>\<open>Map<string, {count, expiresAt}>\<close>.  Times are the
  integer milliseconds of \<^verbatim>\<open>Date.now()\<close>; the clock reading is an argument of the model.
\<close>

record RateLimitRecord =
  count :: int
  expiresAt :: int

record RateLimitOptions =
  limit :: int
  windowMs :: int

type_synonym rateLimitStore = "string \<rightharpoonup> RateLimitRecord"

datatype http_error = TooManyRequests int

text \<open>\<^verbatim>\<open>Math.ceil(x / k)\<close> on integers, for a positive divisor.\<close>

definition ceil_div :: "int \<Rightarrow> int \<Rightarrow> int" where
  "ceil_div x k = - ((- x) div k)"

text \<open>
  \<^verbatim>\<open>handleRateLimit(ip, {limit, windowMs})\<close>: the result is the updated store together
  with either the thrown HTTP exception (carrying \<^verbatim>\<open>retryAfter\<close>) or \<^verbatim>\<open>true\<close>.
\<close>

definition handleRateLimit ::
  "int \<Rightarrow> string \<Rightarrow> RateLimitOptions \<Rightarrow> rateLimitStore \<Rightarrow> (http_error + bool) \<times> rateLimitStore"
where
  "handleRateLimit now ip opts store =
     (case store ip of
        None \<Rightarrow> (Inr True, store(ip \<mapsto> \<lparr>count = 1, expiresAt = now + windowMs opts\<rparr>))
      | Some record \<Rightarrow>
          if expiresAt record < now
          then (Inr True, store(ip \<mapsto> \<lparr>count = 1, expiresAt = now + windowMs opts\<rparr>))
          else if count record \<ge> limit opts
          then (Inl (TooManyRequests (ceil_div (expiresAt record - now) 1000)), store)
          else (Inr True, store(ip \<mapsto> record\<lparr>count := count record + 1\<rparr>)))"

section \<open>Data model of the task service\<close>

text \<open>
  Modelled from the spec: the \<^verbatim>\<open>Task\<close> entity and the two enums
  (\<^verbatim>\<open>entities/task.entity.ts\<close>, \<^verbatim>\<open>enums/task-status.enum.ts\<close>,
  \<^verbatim>\<open>enums/task-priority.enum.ts\<close> are not part of the sources at hand).  The fields are
  those of the data model: identifier, title, optional description, status, priority, optional
  due date, creation time and owner reference.  The runtime value of an enum member is its
  name, as the SQL of \<^verbatim>\<open>getStats\<close> compares \<^verbatim>\<open>task.status\<close> with
  \<^verbatim>\<open>'COMPLETED'\<close>, \<^verbatim>\<open>'IN_PROGRESS'\<close> and \<^verbatim>\<open>'PENDING'\<close>.
\<close>

datatype TaskStatus = PENDING | IN_PROGRESS | COMPLETED

datatype TaskPriority = LOW | MEDIUM | HIGH

fun status_value :: "TaskStatus \<Rightarrow> string" where
  "status_value PENDING = ''PENDING''"
| "status_value IN_PROGRESS = ''IN_PROGRESS''"
| "status_value COMPLETED = ''COMPLETED''"

text \<open>\<^verbatim>\<open>Object.values(TaskStatus)\<close>\<close>

definition TaskStatus_values :: "string list" where
  "TaskStatus_values = map status_value [PENDING, IN_PROGRESS, COMPLETED]"

record Task =
  task_id :: string
  title :: string
  description :: "string option"
  status :: TaskStatus
  priority :: TaskPriority
  dueDate :: "int option"
  createdAt :: int
  userId :: string

text \<open>
  Modelled from the spec: \<^verbatim>\<open>CreateTaskDto\<close> and \<^verbatim>\<open>UpdateTaskDto\<close>
  (\<^verbatim>\<open>dto/create-task.dto.ts\<close>, \<^verbatim>\<open>dto/update-task.dto.ts\<close> are not part of the
  sources at hand): the writable fields of a task, every one optional in the update.
\<close>

record CreateTaskDto =
  c_title :: string
  c_description :: "string option"
  c_status :: "TaskStatus option"
  c_priority :: "TaskPriority option"
  c_dueDate :: "int option"
  c_userId :: string

record UpdateTaskDto =
  u_title :: "string option"
  u_description :: "string option"
  u_status :: "TaskStatus option"
  u_priority :: "TaskPriority option"
  u_dueDate :: "int option"

text \<open>The column values that the store fills in when a row is inserted.\<close>

record generated =
  gen_id :: string
  gen_createdAt :: int
  gen_status :: TaskStatus
  gen_priority :: TaskPriority

subsection \<open>JavaScript values of job payloads\<close>

datatype jsval = JUndefined | JNull | JBool bool | JNum int | JStr string

fun truthy :: "jsval \<Rightarrow> bool" where
  "truthy JUndefined = False"
| "truthy JNull = False"
| "truthy (JBool b) = b"
| "truthy (JNum n) = (n \<noteq> 0)"
| "truthy (JStr s) = (s \<noteq> [])"

type_synonym jsobject = "(string \<times> jsval) list"

text \<open>Property read \<^verbatim>\<open>obj.k\<close>: an absent property reads as \<^verbatim>\<open>undefined\<close>.\<close>

definition field :: "jsobject \<Rightarrow> string \<Rightarrow> jsval" where
  "field obj k = (case map_of obj k of None \<Rightarrow> JUndefined | Some v \<Rightarrow> v)"

text \<open>
  \<^verbatim>\<open>job.data\<close> is untyped: whatever the producer passed to \<^verbatim>\<open>add\<close>, an object or a
  primitive value, \<^verbatim>\<open>null\<close> included.
\<close>

datatype jsdata = Primitive jsval | Object jsobject

record Job =
  job_name :: string
  job_data :: jsdata
  job_attempts :: nat
  job_backoff_delay :: nat

subsection \<open>Responses and cached values\<close>

text \<open>
  \<^verbatim>\<open>Math.ceil(total / limit)\<close> is a JavaScript number: division by zero gives
  \<^verbatim>\<open>Infinity\<close> or \<^verbatim>\<open>NaN\<close>.
\<close>

datatype jsnumber = Num int | PosInfinity | NaN

definition ceil_quot :: "int \<Rightarrow> int \<Rightarrow> jsnumber" where
  "ceil_quot a b =
     (if b = 0 then (if a = 0 then NaN else PosInfinity) else Num (ceil_div a b))"

record PaginatedResponse =
  data :: "Task list"
  meta_total :: nat
  meta_page :: int
  meta_limit :: int
  meta_totalPages :: jsnumber

text \<open>What the cache holds under a key: a single task or a page of tasks.\<close>

datatype cached = CTask Task | CPage PaginatedResponse

subsection \<open>The world: store, cache, queue and the order of effects\<close>

datatype log_level = LDebug | LInfo | LWarn | LError

datatype event =
    TxBegin
  | TxCommit
  | TxRollback
  | DbWrite
  | CacheGet string
  | CacheSet string
  | CacheDel string
  | EnqueueAttempt string jsobject
  | Log log_level

datatype error =
    NotFoundException string
  | CacheUnavailable
  | QueueUnavailable
  | QueryFailedError
  | TypeError

text \<open>
  The three subsystems fail independently: \<open>cache_up\<close> and \<open>queue_up\<close> say whether a
  call to the cache manager, or to the queue broker, goes through or throws.  \<open>trace\<close>
  records the effects in the order in which the code performs them.
\<close>

record world =
  db :: "Task list"
  cache :: "string \<rightharpoonup> cached"
  cache_up :: bool
  queue :: "Job list"
  queue_up :: bool
  trace :: "event list"

text \<open>
  An \<^verbatim>\<open>async\<close> function: it runs on a world and either throws (\<open>Inl\<close>) or returns
  (\<open>Inr\<close>), leaving a new world.
\<close>

type_synonym 'a io = "world \<Rightarrow> (error + 'a) \<times> world"

definition return :: "'a \<Rightarrow> 'a io" where
  "return x = (\<lambda>w. (Inr x, w))"

definition throw :: "error \<Rightarrow> 'a io" where
  "throw e = (\<lambda>w. (Inl e, w))"

definition bind :: "'a io \<Rightarrow> ('a \<Rightarrow> 'b io) \<Rightarrow> 'b io" where
  "bind m f = (\<lambda>w. case m w of (Inl e, w') \<Rightarrow> (Inl e, w') | (Inr x, w') \<Rightarrow> f x w')"

text \<open>\<^verbatim>\<open>try { m } catch (err) { h(err) }\<close>\<close>

definition try_catch :: "'a io \<Rightarrow> (error \<Rightarrow> 'a io) \<Rightarrow> 'a io" where
  "try_catch m h = (\<lambda>w. case m w of (Inl e, w') \<Rightarrow> h e w' | (Inr x, w') \<Rightarrow> (Inr x, w'))"

definition emit :: "event \<Rightarrow> world \<Rightarrow> world" where
  "emit e w = w\<lparr>trace := trace w @ [e]\<rparr>"

definition logger :: "log_level \<Rightarrow> unit io" where
  "logger l = (\<lambda>w. (Inr (), emit (Log l) w))"

text \<open>\<^verbatim>\<open>for (const x of xs) await f(x)\<close>\<close>

fun for_each :: "('a \<Rightarrow> unit io) \<Rightarrow> 'a list \<Rightarrow> unit io" where
  "for_each f [] = return ()"
| "for_each f (x # xs) = bind (f x) (\<lambda>_. for_each f xs)"

subsection \<open>Cache manager, queue and repository\<close>

definition cm_get :: "string \<Rightarrow> cached option io" where
  "cm_get k = (\<lambda>w. let w' = emit (CacheGet k) w in
     if cache_up w then (Inr (cache w k), w') else (Inl CacheUnavailable, w'))"

definition cm_set :: "string \<Rightarrow> cached \<Rightarrow> nat option \<Rightarrow> unit io" where
  "cm_set k v ttl = (\<lambda>w. let w' = emit (CacheSet k) w in
     if cache_up w then (Inr (), w'\<lparr>cache := (cache w)(k \<mapsto> v)\<rparr>) else (Inl CacheUnavailable, w'))"

definition cm_del :: "string \<Rightarrow> unit io" where
  "cm_del k = (\<lambda>w. let w' = emit (CacheDel k) w in
     if cache_up w then (Inr (), w'\<lparr>cache := (cache w)(k := None)\<rparr>) else (Inl CacheUnavailable, w'))"

text \<open>\<^verbatim>\<open>taskQueue.add(name, data, {attempts, backoff: {type: 'exponential', delay}})\<close>\<close>

definition queue_add :: "string \<Rightarrow> jsobject \<Rightarrow> nat \<Rightarrow> nat \<Rightarrow> unit io" where
  "queue_add name payload attempts delay = (\<lambda>w. let w' = emit (EnqueueAttempt name payload) w in
     if queue_up w
     then (Inr (), w'\<lparr>queue := queue w @
             [\<lparr>job_name = name, job_data = Object payload, job_attempts = attempts,
               job_backoff_delay = delay\<rparr>]\<rparr>)
     else (Inl QueueUnavailable, w'))"

text \<open>
  \<^verbatim>\<open>dataSource.transaction(fn)\<close>: commits when \<^verbatim>\<open>fn\<close> returns, rolls the store back
  and rethrows when it throws.  Only the store is rolled back: what \<^verbatim>\<open>fn\<close> did to the
  cache and to the queue stays.
\<close>

definition transaction :: "'a io \<Rightarrow> 'a io" where
  "transaction body = (\<lambda>w. case body (emit TxBegin w) of
       (Inr x, w') \<Rightarrow> (Inr x, emit TxCommit w')
     | (Inl e, w') \<Rightarrow> (Inl e, emit TxRollback (w'\<lparr>db := db w\<rparr>)))"

definition repo_findOne :: "string \<Rightarrow> Task option io" where
  "repo_findOne tid = (\<lambda>w. (Inr (find (\<lambda>t. task_id t = tid) (db w)), w))"

text \<open>\<^verbatim>\<open>repo.create(dto)\<close> followed by the insert of \<^verbatim>\<open>repo.save\<close>.\<close>

definition repo_create :: "generated \<Rightarrow> CreateTaskDto \<Rightarrow> Task" where
  "repo_create gen dto =
     \<lparr>task_id = gen_id gen, title = c_title dto, description = c_description dto,
      status = (case c_status dto of None \<Rightarrow> gen_status gen | Some s \<Rightarrow> s),
      priority = (case c_priority dto of None \<Rightarrow> gen_priority gen | Some p \<Rightarrow> p),
      dueDate = c_dueDate dto, createdAt = gen_createdAt gen, userId = c_userId dto\<rparr>"

text \<open>\<^verbatim>\<open>repo.save(task)\<close>: update of the row with that id, insert when there is none.\<close>

definition repo_save :: "Task \<Rightarrow> Task io" where
  "repo_save task = (\<lambda>w. (Inr task, emit DbWrite (w\<lparr>db :=
       (if task_id task \<in> set (map task_id (db w))
        then map (\<lambda>t. if task_id t = task_id task then task else t) (db w)
        else db w @ [task])\<rparr>)))"

text \<open>\<^verbatim>\<open>repo.merge(task, dto)\<close>: the defined properties of the patch overwrite the task's.\<close>

definition merge :: "Task \<Rightarrow> UpdateTaskDto \<Rightarrow> Task" where
  "merge task dto = task
     \<lparr>title := (case u_title dto of None \<Rightarrow> title task | Some x \<Rightarrow> x),
      description := (case u_description dto of None \<Rightarrow> description task | Some x \<Rightarrow> Some x),
      status := (case u_status dto of None \<Rightarrow> status task | Some x \<Rightarrow> x),
      priority := (case u_priority dto of None \<Rightarrow> priority task | Some x \<Rightarrow> x),
      dueDate := (case u_dueDate dto of None \<Rightarrow> dueDate task | Some x \<Rightarrow> Some x)\<rparr>"

text \<open>
  The statements below run outside an explicit transaction: each commits on its own.
  \<open>affected\<close> is the number of rows the \<^verbatim>\<open>WHERE\<close> clause matches (the row count that
  PostgreSQL reports, whether or not a row's values change).
\<close>

definition repo_delete :: "string \<Rightarrow> nat io" where
  "repo_delete tid = (\<lambda>w. (Inr (length (filter (\<lambda>t. task_id t = tid) (db w))),
       emit DbWrite (w\<lparr>db := filter (\<lambda>t. task_id t \<noteq> tid) (db w)\<rparr>)))"

definition qb_update_status :: "string list \<Rightarrow> TaskStatus \<Rightarrow> nat io" where
  "qb_update_status ids st = (\<lambda>w. (Inr (length (filter (\<lambda>t. task_id t \<in> set ids) (db w))),
       emit DbWrite (w\<lparr>db := map (\<lambda>t. if task_id t \<in> set ids then t\<lparr>status := st\<rparr> else t) (db w)\<rparr>)))"

definition qb_delete :: "string list \<Rightarrow> nat io" where
  "qb_delete ids = (\<lambda>w. (Inr (length (filter (\<lambda>t. task_id t \<in> set ids) (db w))),
       emit DbWrite (w\<lparr>db := filter (\<lambda>t. task_id t \<notin> set ids) (db w)\<rparr>)))"

section \<open>List filters and their cache key (dto/task-filter.dto.ts)\<close>

text \<open>
  A filter object is the sequence of its own properties in insertion order, which is the
  order in which \<^verbatim>\<open>JSON.stringify\<close> walks them.  Each property has the type the DTO
  declares; a property that is absent (or \<^verbatim>\<open>undefined\<close>) is not in the sequence.  An
  object holds a property name at most once (\<open>wf_filter\<close>).
\<close>

datatype filter_field =
    FStatus string
  | FPriority string
  | FQ string
  | FPage int
  | FLimit int
  | FSortBy string
  | FSortOrder string

type_synonym TaskFilterDto = "filter_field list"

fun field_name :: "filter_field \<Rightarrow> string" where
  "field_name (FStatus _) = ''status''"
| "field_name (FPriority _) = ''priority''"
| "field_name (FQ _) = ''q''"
| "field_name (FPage _) = ''page''"
| "field_name (FLimit _) = ''limit''"
| "field_name (FSortBy _) = ''sortBy''"
| "field_name (FSortOrder _) = ''sortOrder''"

definition wf_filter :: "TaskFilterDto \<Rightarrow> bool" where
  "wf_filter f = distinct (map field_name f)"

fun filter_status :: "TaskFilterDto \<Rightarrow> string option" where
  "filter_status [] = None"
| "filter_status (FStatus v # _) = Some v"
| "filter_status (_ # f) = filter_status f"

fun filter_priority :: "TaskFilterDto \<Rightarrow> string option" where
  "filter_priority [] = None"
| "filter_priority (FPriority v # _) = Some v"
| "filter_priority (_ # f) = filter_priority f"

fun filter_q :: "TaskFilterDto \<Rightarrow> string option" where
  "filter_q [] = None"
| "filter_q (FQ v # _) = Some v"
| "filter_q (_ # f) = filter_q f"

fun filter_page :: "TaskFilterDto \<Rightarrow> int option" where
  "filter_page [] = None"
| "filter_page (FPage v # _) = Some v"
| "filter_page (_ # f) = filter_page f"

fun filter_limit :: "TaskFilterDto \<Rightarrow> int option" where
  "filter_limit [] = None"
| "filter_limit (FLimit v # _) = Some v"
| "filter_limit (_ # f) = filter_limit f"

fun filter_sortBy :: "TaskFilterDto \<Rightarrow> string option" where
  "filter_sortBy [] = None"
| "filter_sortBy (FSortBy v # _) = Some v"
| "filter_sortBy (_ # f) = filter_sortBy f"

fun filter_sortOrder :: "TaskFilterDto \<Rightarrow> string option" where
  "filter_sortOrder [] = None"
| "filter_sortOrder (FSortOrder v # _) = Some v"
| "filter_sortOrder (_ # f) = filter_sortOrder f"

subsection \<open>\<^verbatim>\<open>JSON.stringify\<close> of a filter\<close>

definition hex_digit :: "nat \<Rightarrow> char" where
  "hex_digit n = ''0123456789abcdef'' ! (n mod 16)"

text \<open>
  String quoting of \<^verbatim>\<open>JSON.stringify\<close>: the quote and the backslash are escaped with a
  backslash, control characters get their short escape or \<^verbatim>\<open>\u00XX\<close>, every other
  character is copied.
\<close>

definition json_escape :: "char \<Rightarrow> string" where
  "json_escape c =
     (if c = CHR 0x22 then [CHR 0x5C, CHR 0x22]
      else if c = CHR 0x5C then [CHR 0x5C, CHR 0x5C]
      else if c = CHR 0x08 then [CHR 0x5C, CHR ''b'']
      else if c = CHR 0x0C then [CHR 0x5C, CHR ''f'']
      else if c = CHR 0x0A then [CHR 0x5C, CHR ''n'']
      else if c = CHR 0x0D then [CHR 0x5C, CHR ''r'']
      else if c = CHR 0x09 then [CHR 0x5C, CHR ''t'']
      else if of_char c < (32 :: nat)
      then [CHR 0x5C, CHR ''u'', CHR ''0'', CHR ''0'',
            hex_digit (of_char c div 16), hex_digit (of_char c)]
      else [c])"

definition json_string :: "string \<Rightarrow> string" where
  "json_string s = [CHR 0x22] @ concat (map json_escape s) @ [CHR 0x22]"

fun digits :: "nat \<Rightarrow> string" where
  "digits n = (if n < 10 then [hex_digit n] else digits (n div 10) @ [hex_digit (n mod 10)])"

text \<open>
  Decimal rendering of an integer number (page numbers and limits; numbers of \<open>10\<^sup>2\<^sup>1\<close>
  and more, which JavaScript prints with an exponent, are out of their range).
\<close>

definition json_number :: "int \<Rightarrow> string" where
  "json_number i = (if i < 0 then CHR ''-'' # digits (nat (- i)) else digits (nat i))"

fun json_member :: "filter_field \<Rightarrow> string" where
  "json_member (FStatus v) = json_string ''status'' @ '':'' @ json_string v"
| "json_member (FPriority v) = json_string ''priority'' @ '':'' @ json_string v"
| "json_member (FQ v) = json_string ''q'' @ '':'' @ json_string v"
| "json_member (FPage v) = json_string ''page'' @ '':'' @ json_number v"
| "json_member (FLimit v) = json_string ''limit'' @ '':'' @ json_number v"
| "json_member (FSortBy v) = json_string ''sortBy'' @ '':'' @ json_string v"
| "json_member (FSortOrder v) = json_string ''sortOrder'' @ '':'' @ json_string v"

fun join_comma :: "string list \<Rightarrow> string" where
  "join_comma [] = []"
| "join_comma [x] = x"
| "join_comma (x # xs) = x @ '','' @ join_comma xs"

definition JSON_stringify :: "TaskFilterDto \<Rightarrow> string" where
  "JSON_stringify f = ''{'' @ join_comma (map json_member f) @ ''}''"

section \<open>TasksService (modules/tasks/tasks.service.ts)\<close>

definition invalidateTaskCache :: "unit io" where
  "invalidateTaskCache =
     bind (for_each cm_del [''tasks:all'', ''tasks:stats'']) (\<lambda>_. logger LDebug)"

definition getCacheKey :: "TaskFilterDto \<Rightarrow> string" where
  "getCacheKey f = ''tasks:'' @ JSON_stringify f"

definition status_update_payload :: "string \<Rightarrow> TaskStatus \<Rightarrow> jsobject" where
  "status_update_payload tid st = [(''taskId'', JStr tid), (''status'', JStr (status_value st))]"

definition create :: "generated \<Rightarrow> CreateTaskDto \<Rightarrow> Task io" where
  "create gen createTaskDto =
     bind (transaction
            (bind (repo_save (repo_create gen createTaskDto)) (\<lambda>saved.
             bind (try_catch
                    (queue_add ''task-status-update''
                       (status_update_payload (task_id saved) (status saved)) 3 1000)
                    (\<lambda>err. logger LError)) (\<lambda>_.
             return saved))))
       (\<lambda>result.
     bind invalidateTaskCache (\<lambda>_.
     return result))"

subsection \<open>The list query\<close>

datatype condition = StatusEq string | PriorityEq string | TextILike string

datatype direction = ASC | DESC

record query =
  wheres :: "condition list"
  orderField :: string
  orderDir :: direction
  skip :: int
  take_n :: int

text \<open>
  The entity store is an external collaborator: \<^verbatim>\<open>getManyAndCount\<close> hands the query to
  it and gets back the page of rows and the total count.
\<close>

type_synonym engine = "query \<Rightarrow> Task list \<Rightarrow> Task list \<times> nat"

definition getManyAndCount :: "engine \<Rightarrow> query \<Rightarrow> (Task list \<times> nat) io" where
  "getManyAndCount eng q = (\<lambda>w. (Inr (eng q (db w)), w))"

definition sortable_fields :: "string list" where
  "sortable_fields = [''title'', ''createdAt'', ''dueDate'', ''priority'', ''status'']"

text \<open>The query that \<^verbatim>\<open>findAll\<close> builds from the filter (lines 72--98).\<close>

definition findAll_query :: "TaskFilterDto \<Rightarrow> query" where
  "findAll_query f =
     (let page = (case filter_page f of None \<Rightarrow> 1 | Some p \<Rightarrow> p);
          limit = (case filter_limit f of None \<Rightarrow> 10 | Some l \<Rightarrow> l);
          skip = (page - 1) * limit;
          sortBy = (case filter_sortBy f of None \<Rightarrow> [] | Some s \<Rightarrow> s)
      in \<lparr>wheres =
             (case filter_status f of None \<Rightarrow> [] | Some v \<Rightarrow> if v \<noteq> [] then [StatusEq v] else []) @
             (case filter_priority f of None \<Rightarrow> [] | Some v \<Rightarrow> if v \<noteq> [] then [PriorityEq v] else []) @
             (case filter_q f of None \<Rightarrow> [] | Some v \<Rightarrow> if v \<noteq> [] then [TextILike (''%'' @ v @ ''%'')] else []),
           orderField = (if sortBy \<in> set sortable_fields then ''task.'' @ sortBy else ''task.createdAt''),
           orderDir = (if filter_sortOrder f = Some ''ASC'' then ASC else DESC),
           skip = skip,
           take_n = limit\<rparr>)"

definition findAll_response :: "TaskFilterDto \<Rightarrow> Task list \<times> nat \<Rightarrow> PaginatedResponse" where
  "findAll_response f r =
     (let page = (case filter_page f of None \<Rightarrow> 1 | Some p \<Rightarrow> p);
          limit = (case filter_limit f of None \<Rightarrow> 10 | Some l \<Rightarrow> l)
      in \<lparr>data = fst r, meta_total = snd r, meta_page = page, meta_limit = limit,
          meta_totalPages = ceil_quot (int (snd r)) limit\<rparr>)"

definition findAll :: "engine \<Rightarrow> TaskFilterDto \<Rightarrow> cached io" where
  "findAll eng f =
     (let cacheKey = getCacheKey f in
      bind (cm_get cacheKey) (\<lambda>hit.
      case hit of
        Some v \<Rightarrow> bind (logger LDebug) (\<lambda>_. return v)
      | None \<Rightarrow>
          bind (getManyAndCount eng (findAll_query f)) (\<lambda>r.
          let response = CPage (findAll_response f r) in
          bind (cm_set cacheKey response None) (\<lambda>_.
          bind (logger LDebug) (\<lambda>_.
          return response)))))"

definition findOne :: "string \<Rightarrow> cached io" where
  "findOne tid =
     (let cacheKey = ''task:'' @ tid in
      bind (cm_get cacheKey) (\<lambda>hit.
      case hit of
        Some v \<Rightarrow> bind (logger LDebug) (\<lambda>_. return v)
      | None \<Rightarrow>
          bind (repo_findOne tid) (\<lambda>found.
          case found of
            None \<Rightarrow> throw (NotFoundException tid)
          | Some task \<Rightarrow>
              bind (cm_set cacheKey (CTask task) None) (\<lambda>_.
              bind (logger LDebug) (\<lambda>_.
              return (CTask task))))))"

definition update :: "string \<Rightarrow> UpdateTaskDto \<Rightarrow> Task io" where
  "update tid updateTaskDto =
     transaction
       (bind (repo_findOne tid) (\<lambda>found.
        case found of
          None \<Rightarrow> throw (NotFoundException tid)
        | Some task \<Rightarrow>
            (let originalStatus = status task in
             bind (repo_save (merge task updateTaskDto)) (\<lambda>saved.
             bind (if originalStatus \<noteq> status saved
                   then try_catch
                          (queue_add ''task-status-update''
                             (status_update_payload (task_id saved) (status saved)) 3 1000)
                          (\<lambda>err. logger LError)
                   else return ()) (\<lambda>_.
             bind invalidateTaskCache (\<lambda>_.
             bind (cm_del (''task:'' @ tid)) (\<lambda>_.
             bind (logger LDebug) (\<lambda>_.
             return saved))))))))"

definition remove :: "string \<Rightarrow> nat io" where
  "remove tid =
     bind (repo_delete tid) (\<lambda>affected.
     if affected = 0 then throw (NotFoundException tid)
     else
       bind invalidateTaskCache (\<lambda>_.
       bind (cm_del (''task:'' @ tid)) (\<lambda>_.
       bind (logger LDebug) (\<lambda>_.
       return affected))))"

text \<open>The body of the loop over the ids in \<^verbatim>\<open>bulkUpdateStatus\<close> (lines 223--232).\<close>

definition bulkUpdateStatus_step :: "TaskStatus \<Rightarrow> string \<Rightarrow> unit io" where
  "bulkUpdateStatus_step st tid =
     bind (cm_del (''task:'' @ tid)) (\<lambda>_.
     try_catch
       (queue_add ''task-status-update'' (status_update_payload tid st) 3 1000)
       (\<lambda>err. logger LError))"

definition bulkUpdateStatus :: "string list \<Rightarrow> TaskStatus \<Rightarrow> nat io" where
  "bulkUpdateStatus ids st =
     (if ids = [] then return 0
      else
        bind (qb_update_status ids st) (\<lambda>affected.
        bind (for_each (bulkUpdateStatus_step st) ids) (\<lambda>_.
        bind invalidateTaskCache (\<lambda>_.
        return affected))))"

definition bulkDelete :: "string list \<Rightarrow> nat io" where
  "bulkDelete ids =
     (if ids = [] then return 0
      else
        bind (qb_delete ids) (\<lambda>affected.
        bind (for_each (\<lambda>tid. cm_del (''task:'' @ tid)) ids) (\<lambda>_.
        bind invalidateTaskCache (\<lambda>_.
        return affected))))"

definition updateStatus :: "string \<Rightarrow> TaskStatus \<Rightarrow> Task io" where
  "updateStatus tid st =
     bind (repo_findOne tid) (\<lambda>found.
     case found of
       None \<Rightarrow> throw (NotFoundException tid)
     | Some task \<Rightarrow>
         bind (repo_save (task\<lparr>status := st\<rparr>)) (\<lambda>updated.
         bind invalidateTaskCache (\<lambda>_.
         bind (cm_del (''task:'' @ tid)) (\<lambda>_.
         bind (logger LDebug) (\<lambda>_.
         return updated)))))"

section \<open>CacheService (common/services/cache.service.ts)\<close>

definition CacheService_set :: "string \<Rightarrow> cached \<Rightarrow> nat option \<Rightarrow> unit io" where
  "CacheService_set key v ttlSeconds = bind (logger LInfo) (\<lambda>_. cm_set key v ttlSeconds)"

definition CacheService_get :: "string \<Rightarrow> cached option io" where
  "CacheService_get key = bind (cm_get key) (\<lambda>d. bind (logger LInfo) (\<lambda>_. return d))"

definition CacheService_delete :: "string \<Rightarrow> unit io" where
  "CacheService_delete key = bind (logger LInfo) (\<lambda>_. cm_del key)"

section \<open>TaskProcessorService (queues/task-processor/task-processor.service.ts)\<close>

text \<open>
  What a handler returns: \<^verbatim>\<open>{success: true, taskId, newStatus}\<close>,
  \<^verbatim>\<open>{success: true, taskId}\<close> or \<^verbatim>\<open>{success: false, error}\<close>.
\<close>

datatype job_result =
    StatusUpdated string TaskStatus
  | OverdueNotified jsval
  | Failed string

fun success :: "job_result \<Rightarrow> bool" where
  "success (StatusUpdated _ _) = True"
| "success (OverdueNotified _) = True"
| "success (Failed _) = False"

text \<open>\<^verbatim>\<open>Object.values(TaskStatus).includes(status)\<close>, with the member it denotes.\<close>

fun status_of_js :: "jsval \<Rightarrow> TaskStatus option" where
  "status_of_js (JStr s) = find (\<lambda>st. status_value st = s) [PENDING, IN_PROGRESS, COMPLETED]"
| "status_of_js _ = None"

text \<open>
  The service methods take the identifier as a string.  The payload of a job is untyped;
  an identifier that is not a string does not reach a row: the model lets the store reject
  it with a query error.
\<close>

fun id_of_js :: "jsval \<Rightarrow> string option" where
  "id_of_js (JStr s) = Some s"
| "id_of_js _ = None"

text \<open>
  The destructuring \<^verbatim>\<open>const { taskId, status } = job.data\<close>: it throws a
  \<^verbatim>\<open>TypeError\<close> when the payload is \<^verbatim>\<open>null\<close> or \<^verbatim>\<open>undefined\<close>; any other
  primitive has none of the properties, which then read as \<^verbatim>\<open>undefined\<close>.
\<close>

fun destructure :: "jsdata \<Rightarrow> jsobject io" where
  "destructure (Object obj) = return obj"
| "destructure (Primitive JNull) = throw TypeError"
| "destructure (Primitive JUndefined) = throw TypeError"
| "destructure (Primitive _) = return []"

definition handleStatusUpdate :: "Job \<Rightarrow> job_result io" where
  "handleStatusUpdate job =
     bind (destructure (job_data job)) (\<lambda>d.
     let taskId = field d ''taskId''; st = field d ''status'' in
     if \<not> truthy taskId \<or> \<not> truthy st
     then bind (logger LWarn) (\<lambda>_. return (Failed ''Missing required data''))
     else
       case status_of_js st of
         None \<Rightarrow> bind (logger LWarn) (\<lambda>_. return (Failed ''Invalid status value''))
       | Some s \<Rightarrow>
           try_catch
             (bind (case id_of_js taskId of
                      None \<Rightarrow> throw QueryFailedError
                    | Some tid \<Rightarrow> updateStatus tid s) (\<lambda>task.
              return (StatusUpdated (task_id task) (status task))))
             (\<lambda>err. bind (logger LError) (\<lambda>_. throw err)))"

definition handleOverdueTasks :: "Job \<Rightarrow> job_result io" where
  "handleOverdueTasks job =
     bind (destructure (job_data job)) (\<lambda>d.
     let taskId = field d ''taskId'' in
     if \<not> truthy taskId
     then bind (logger LWarn) (\<lambda>_. return (Failed ''Missing taskId''))
     else
       try_catch
         (bind (case id_of_js taskId of
                  None \<Rightarrow> throw QueryFailedError
                | Some tid \<Rightarrow> findOne tid) (\<lambda>task.
          bind (logger LDebug) (\<lambda>_.
          return (OverdueNotified taskId))))
         (\<lambda>err. bind (logger LError) (\<lambda>_. throw err)))"

definition process :: "Job \<Rightarrow> job_result io" where
  "process job =
     bind (logger LDebug) (\<lambda>_.
     try_catch
       (if job_name job = ''task-status-update'' then handleStatusUpdate job
        else if job_name job = ''overdue-tasks-notification'' then handleOverdueTasks job
        else bind (logger LWarn) (\<lambda>_. return (Failed ''Unknown job type'')))
       (\<lambda>err. bind (logger LError) (\<lambda>_. throw err)))"

text \<open>
  How the worker reads the outcome of \<^verbatim>\<open>process\<close>: a thrown error is a failed attempt,
  retried with backoff while attempts remain; a returned object completes the job, and
  \<^verbatim>\<open>{success: false}\<close> is then a terminal failure that is not retried.
\<close>

definition retry_signal :: "(error + job_result) \<Rightarrow> bool" where
  "retry_signal r = (case r of Inl _ \<Rightarrow> True | Inr _ \<Rightarrow> False)"

definition terminal_failure :: "(error + job_result) \<Rightarrow> bool" where
  "terminal_failure r = (case r of Inl _ \<Rightarrow> False | Inr res \<Rightarrow> \<not> success res)"

section \<open>Order of effects\<close>

text \<open>
  Where a run stands with respect to its store write: nothing committed yet, inside the body
  of an open transaction, or committed.  A statement outside a transaction commits on its own.
\<close>

datatype tx_phase = Uncommitted | InTx | Committed

fun next_phase :: "tx_phase \<Rightarrow> event \<Rightarrow> tx_phase" where
  "next_phase ph TxBegin = InTx"
| "next_phase ph TxCommit = Committed"
| "next_phase ph TxRollback = Uncommitted"
| "next_phase ph DbWrite = (if ph = InTx then InTx else Committed)"
| "next_phase ph _ = ph"

text \<open>Every event of the kind \<open>P\<close> happens after the write has committed.\<close>

fun only_after_commit :: "(event \<Rightarrow> bool) \<Rightarrow> tx_phase \<Rightarrow> event list \<Rightarrow> bool" where
  "only_after_commit P ph [] = True"
| "only_after_commit P ph (e # es) =
     (if P e then ph = Committed \<and> only_after_commit P ph es
      else only_after_commit P (next_phase ph e) es)"

fun is_cache_del :: "event \<Rightarrow> bool" where
  "is_cache_del (CacheDel _) = True"
| "is_cache_del _ = False"

fun is_enqueue :: "event \<Rightarrow> bool" where
  "is_enqueue (EnqueueAttempt _ _) = True"
| "is_enqueue _ = False"

section \<open>Vocabulary of the properties\<close>

subsection \<open>Rate limiting\<close>

definition allowed :: "(http_error + bool) \<Rightarrow> bool" where
  "allowed r = (r = Inr True)"

text \<open>Rejected, with \<^verbatim>\<open>retryAfter\<close> in the interval \<open>(lo, hi]\<close>.\<close>

definition rejected_within :: "int \<Rightarrow> int \<Rightarrow> (http_error + bool) \<Rightarrow> bool" where
  "rejected_within lo hi r =
     (case r of Inl (TooManyRequests s) \<Rightarrow> lo < s \<and> s \<le> hi | Inr _ \<Rightarrow> False)"

definition two_per_minute :: RateLimitOptions where
  "two_per_minute = \<lparr>limit = 2, windowMs = 60000\<rparr>"

text \<open>No record, or a record whose window has expired: \<^verbatim>\<open>!record || record.expiresAt < now\<close>.\<close>

definition expired :: "int \<Rightarrow> rateLimitStore \<Rightarrow> string \<Rightarrow> bool" where
  "expired now store ip = (case store ip of None \<Rightarrow> True | Some r \<Rightarrow> expiresAt r < now)"

subsection \<open>Sample inputs\<close>

definition empty_world :: world where
  "empty_world =
     \<lparr>db = [], cache = Map.empty, cache_up = True, queue = [], queue_up = True, trace = []\<rparr>"

text \<open>The job that the overdue scanner submits for a task (overdue-tasks.service.ts).\<close>

definition overdue_job :: "string \<Rightarrow> Job" where
  "overdue_job tid =
     \<lparr>job_name = ''overdue-tasks-notification'', job_data = Object [(''taskId'', JStr tid)],
      job_attempts = 3, job_backoff_delay = 2000\<rparr>"

definition sample_task :: Task where
  "sample_task =
     \<lparr>task_id = ''t1'', title = ''write report'', description = None, status = PENDING,
      priority = MEDIUM, dueDate = None, createdAt = 5, userId = ''u1''\<rparr>"

definition one_task_world :: world where
  "one_task_world = empty_world\<lparr>db := [sample_task]\<rparr>"

definition status_update_job :: "jsdata \<Rightarrow> Job" where
  "status_update_job payload =
     \<lparr>job_name = ''task-status-update'', job_data = payload,
      job_attempts = 3, job_backoff_delay = 1000\<rparr>"

text \<open>A store that returns every row, whatever the query.\<close>

definition all_rows :: engine where
  "all_rows q rows = (rows, length rows)"

definition cache_down_world :: world where
  "cache_down_world = one_task_world\<lparr>cache_up := False\<rparr>"

definition sample_gen :: generated where
  "sample_gen =
     \<lparr>gen_id = ''t2'', gen_createdAt = 9, gen_status = PENDING, gen_priority = MEDIUM\<rparr>"

definition sample_dto :: CreateTaskDto where
  "sample_dto =
     \<lparr>c_title = ''review'', c_description = None, c_status = None, c_priority = None,
      c_dueDate = None, c_userId = ''u1''\<rparr>"

definition complete_patch :: UpdateTaskDto where
  "complete_patch =
     \<lparr>u_title = None, u_description = None, u_status = Some COMPLETED,
      u_priority = None, u_dueDate = None\<rparr>"

definition rename_patch :: UpdateTaskDto where
  "rename_patch =
     \<lparr>u_title = Some ''final report'', u_description = None, u_status = None,
      u_priority = None, u_dueDate = None\<rparr>"

subsection \<open>Store contents and effect counts\<close>

text \<open>The row with a given id, as \<^verbatim>\<open>findOne({where: {id}})\<close> reads it.\<close>

definition row :: "string \<Rightarrow> world \<Rightarrow> Task option" where
  "row tid w = find (\<lambda>t. task_id t = tid) (db w)"

text \<open>The table after \<^verbatim>\<open>UPDATE task SET status = st WHERE id IN (ids)\<close>.\<close>

definition set_status :: "string list \<Rightarrow> TaskStatus \<Rightarrow> Task list \<Rightarrow> Task list" where
  "set_status ids st rows = map (\<lambda>t. if task_id t \<in> set ids then t\<lparr>status := st\<rparr> else t) rows"

definition matching :: "string list \<Rightarrow> Task list \<Rightarrow> nat" where
  "matching ids rows = length (filter (\<lambda>t. task_id t \<in> set ids) rows)"

text \<open>The jobs the queue has been asked to take so far, by name and payload, in order.\<close>

definition enqueues :: "world \<Rightarrow> event list" where
  "enqueues w = filter is_enqueue (trace w)"

text \<open>Events that leave the phase alone: cache calls, enqueue attempts, log lines.\<close>

fun is_side_effect :: "event \<Rightarrow> bool" where
  "is_side_effect TxBegin = False"
| "is_side_effect TxCommit = False"
| "is_side_effect TxRollback = False"
| "is_side_effect DbWrite = False"
| "is_side_effect _ = True"

subsection \<open>Job payloads\<close>

text \<open>The payloads on which the destructuring of a handler throws.\<close>

definition nullish :: "jsdata \<Rightarrow> bool" where
  "nullish d = (d = Primitive JNull \<or> d = Primitive JUndefined)"

text \<open>The properties a handler reads off a payload that is not nullish.\<close>

fun properties :: "jsdata \<Rightarrow> jsobject" where
  "properties (Object obj) = obj"
| "properties (Primitive _) = []"

subsection \<open>Filters\<close>

text \<open>What the property reads of the seven fields of a filter return.\<close>

definition filter_values ::
  "TaskFilterDto \<Rightarrow>
     string option \<times> string option \<times> string option \<times> int option \<times> int option
       \<times> string option \<times> string option" where
  "filter_values f =
     (filter_status f, filter_priority f, filter_q f, filter_page f, filter_limit f,
      filter_sortBy f, filter_sortOrder f)"

section \<open>Properties\<close>

named_theorems io_defs

lemmas [io_defs] = return_def throw_def bind_def try_catch_def emit_def logger_def
  cm_get_def cm_set_def cm_del_def queue_add_def transaction_def repo_findOne_def repo_save_def
  repo_delete_def qb_update_status_def qb_delete_def getManyAndCount_def invalidateTaskCache_def

subsection \<open>Rate limiting\<close>

lemma ceil_div_ceiling: "ceil_div x 1000 = \<lceil>real_of_int x / 1000\<rceil>"
proof -
  have "\<lfloor>real_of_int (- x) / real_of_int 1000\<rfloor> = (- x) div 1000"
    by (rule floor_divide_of_int_eq)
  then show ?thesis
    by (simp add: ceil_div_def ceiling_def)
qed

lemma ceil_div_diff: "ceil_div (a - b) 1000 = \<lceil>(real_of_int a - real_of_int b) / 1000\<rceil>"
  using ceil_div_ceiling [of "a - b"] by simp

lemma ceil_div_pos: "0 < x \<Longrightarrow> 0 < ceil_div x 1000"
  unfolding ceil_div_def by linarith

lemma ceil_div_le: "x \<le> 60000 \<Longrightarrow> ceil_div x 1000 \<le> 60"
  unfolding ceil_div_def by linarith

lemma handleRateLimit_fresh:
  "expired now store ip \<Longrightarrow>
     handleRateLimit now ip opts store =
       (Inr True, store(ip \<mapsto> \<lparr>count = 1, expiresAt = now + windowMs opts\<rparr>))"
  by (cases "store ip") (simp_all add: handleRateLimit_def expired_def)

lemma handleRateLimit_increment:
  "store ip = Some r \<Longrightarrow> \<not> expiresAt r < now \<Longrightarrow> count r < limit opts \<Longrightarrow>
     handleRateLimit now ip opts store = (Inr True, store(ip \<mapsto> r\<lparr>count := count r + 1\<rparr>))"
  by (simp add: handleRateLimit_def)

lemma handleRateLimit_reject:
  "store ip = Some r \<Longrightarrow> \<not> expiresAt r < now \<Longrightarrow> \<not> count r < limit opts \<Longrightarrow>
     handleRateLimit now ip opts store =
       (Inl (TooManyRequests \<lceil>real_of_int (expiresAt r - now) / 1000\<rceil>), store)"
  by (simp add: handleRateLimit_def ceil_div_diff)

lemma handleRateLimit_scenario:
  assumes "store ip = None" "t1 \<le> t3" "t2 \<le> t1 + 60000" "t3 < t1 + 60000" "t1 + 60000 < t4"
  shows "(let (r1, s1) = handleRateLimit t1 ip two_per_minute store;
              (r2, s2) = handleRateLimit t2 ip two_per_minute s1;
              (r3, s3) = handleRateLimit t3 ip two_per_minute s2;
              (r4, s4) = handleRateLimit t4 ip two_per_minute s3
          in allowed r1 \<and> allowed r2 \<and> rejected_within 0 60 r3 \<and> allowed r4
             \<and> s4 ip = Some \<lparr>count = 1, expiresAt = t4 + 60000\<rparr>)"
  using assms
  by (simp add: handleRateLimit_def two_per_minute_def allowed_def rejected_within_def
      ceil_div_pos ceil_div_le)

text \<open>
  C6, as stated, fails at the instant the window ends.  With limit 2 and a window of 60000 ms,
  requests at times 0 and 1 are admitted; a third request at time 60000 finds the record not
  yet expired (\<^verbatim>\<open>expiresAt < now\<close> is false) and is rejected with
  \<^verbatim>\<open>retryAfter = ceil(0 / 1000) = 0\<close>: it is neither admitted nor rejected with a
  \<^verbatim>\<open>retryAfter\<close> in \<open>(0, 60]\<close>.
\<close>

theorem rate_limit_boundary_counterexample:
  "\<not> allowed (fst (handleRateLimit 60000 ''ip'' two_per_minute
        (snd (handleRateLimit 1 ''ip'' two_per_minute
        (snd (handleRateLimit 0 ''ip'' two_per_minute Map.empty))))))
   \<and> \<not> rejected_within 0 60 (fst (handleRateLimit 60000 ''ip'' two_per_minute
        (snd (handleRateLimit 1 ''ip'' two_per_minute
        (snd (handleRateLimit 0 ''ip'' two_per_minute Map.empty))))))"
  by (simp add: handleRateLimit_def two_per_minute_def allowed_def rejected_within_def ceil_div_def)

text \<open>
  C6 (amended): for every caller key, limit \<open>L\<close> and window \<open>W\<close>: a request with no record
  or with an expired record (\<open>windowExpiry < now\<close>) creates a fresh record with count 1 and
  \<open>windowExpiry = now + W\<close> and is allowed; a request with \<open>count < L\<close> increments the count
  and is allowed; otherwise the request is rejected with
  \<open>retryAfter = ceil((windowExpiry - now) / 1000)\<close>.  With \<open>L = 2\<close> and \<open>W = 60000\<close>:
  requests 1 and 2 succeed, a request 3 made strictly before \<open>windowExpiry\<close> is rejected
  with \<open>retryAfter\<close> in \<open>(0, 60]\<close>, and a request made strictly after \<open>windowExpiry\<close>
  succeeds and resets the count to 1.
\<close>

theorem handleRateLimit_fixed_window:
  fixes store :: rateLimitStore
  shows "(expired now store ip \<longrightarrow>
            handleRateLimit now ip opts store =
              (Inr True, store(ip \<mapsto> \<lparr>count = 1, expiresAt = now + windowMs opts\<rparr>)))
       \<and> (\<forall>r. store ip = Some r \<and> \<not> expiresAt r < now \<and> count r < limit opts \<longrightarrow>
            handleRateLimit now ip opts store = (Inr True, store(ip \<mapsto> r\<lparr>count := count r + 1\<rparr>)))
       \<and> (\<forall>r. store ip = Some r \<and> \<not> expiresAt r < now \<and> \<not> count r < limit opts \<longrightarrow>
            handleRateLimit now ip opts store =
              (Inl (TooManyRequests \<lceil>real_of_int (expiresAt r - now) / 1000\<rceil>), store))
       \<and> (store ip = None \<and> t1 \<le> t3 \<and> t2 \<le> t1 + 60000 \<and> t3 < t1 + 60000 \<and> t1 + 60000 < t4 \<longrightarrow>
            (let (r1, s1) = handleRateLimit t1 ip two_per_minute store;
                 (r2, s2) = handleRateLimit t2 ip two_per_minute s1;
                 (r3, s3) = handleRateLimit t3 ip two_per_minute s2;
                 (r4, s4) = handleRateLimit t4 ip two_per_minute s3
             in allowed r1 \<and> allowed r2 \<and> rejected_within 0 60 r3 \<and> allowed r4
                \<and> s4 ip = Some \<lparr>count = 1, expiresAt = t4 + 60000\<rparr>))"
  using handleRateLimit_fresh [of now store ip opts] handleRateLimit_increment [of store ip _ now opts]
    handleRateLimit_reject [of store ip _ now opts] handleRateLimit_scenario [of store ip t1 t3 t2 t4]
  by blast

theorem handleRateLimit_fixed_window_witness:
  "(let store = Map.empty(''ip'' \<mapsto> \<lparr>count = 2, expiresAt = 60000\<rparr>) in
      expired 60001 store ''ip'' \<and>
      handleRateLimit 60001 ''ip'' two_per_minute store =
        (Inr True, store(''ip'' \<mapsto> \<lparr>count = 1, expiresAt = 120001\<rparr>)))
   \<and> (let store = Map.empty(''ip'' \<mapsto> \<lparr>count = 1, expiresAt = 60000\<rparr>) in
      handleRateLimit 500 ''ip'' two_per_minute store =
        (Inr True, store(''ip'' \<mapsto> \<lparr>count = 2, expiresAt = 60000\<rparr>)))
   \<and> (let store = Map.empty(''ip'' \<mapsto> \<lparr>count = 2, expiresAt = 60000\<rparr>) in
      handleRateLimit 500 ''ip'' two_per_minute store = (Inl (TooManyRequests 60), store))
   \<and> (let (r1, s1) = handleRateLimit 0 ''ip'' two_per_minute Map.empty;
           (r2, s2) = handleRateLimit 1 ''ip'' two_per_minute s1;
           (r3, s3) = handleRateLimit 59999 ''ip'' two_per_minute s2;
           (r4, s4) = handleRateLimit 60001 ''ip'' two_per_minute s3
       in allowed r1 \<and> allowed r2 \<and> rejected_within 0 60 r3 \<and> allowed r4
          \<and> s4 ''ip'' = Some \<lparr>count = 1, expiresAt = 120001\<rparr>)"
proof -
  let ?full = "Map.empty(''ip'' \<mapsto> \<lparr>count = 2, expiresAt = 60000\<rparr>)"
  let ?half = "Map.empty(''ip'' \<mapsto> \<lparr>count = 1, expiresAt = 60000\<rparr>)"
  have e: "expired 60001 ?full ''ip''"
    by (simp add: expired_def)
  have a: "handleRateLimit 60001 ''ip'' two_per_minute ?full =
      (Inr True, ?full(''ip'' \<mapsto> \<lparr>count = 1, expiresAt = 120001\<rparr>))"
    using handleRateLimit_fixed_window [of 60001 ?full "''ip''" two_per_minute] e
    by (simp add: two_per_minute_def)
  have b: "handleRateLimit 500 ''ip'' two_per_minute ?half =
      (Inr True, ?half(''ip'' \<mapsto> \<lparr>count = 2, expiresAt = 60000\<rparr>))"
    using handleRateLimit_fixed_window [of 500 ?half "''ip''" two_per_minute]
    by (simp add: two_per_minute_def)
  have c: "handleRateLimit 500 ''ip'' two_per_minute ?full = (Inl (TooManyRequests 60), ?full)"
    using handleRateLimit_fixed_window [of 500 ?full "''ip''" two_per_minute]
    by (simp add: two_per_minute_def)
  have d: "(let (r1, s1) = handleRateLimit 0 ''ip'' two_per_minute Map.empty;
           (r2, s2) = handleRateLimit 1 ''ip'' two_per_minute s1;
           (r3, s3) = handleRateLimit 59999 ''ip'' two_per_minute s2;
           (r4, s4) = handleRateLimit 60001 ''ip'' two_per_minute s3
       in allowed r1 \<and> allowed r2 \<and> rejected_within 0 60 r3 \<and> allowed r4
          \<and> s4 ''ip'' = Some \<lparr>count = 1, expiresAt = 120001\<rparr>)"
    using handleRateLimit_fixed_window [of _ Map.empty "''ip''" _ 0 59999 1 60001]
    by simp
  show ?thesis
    using e a b c d by (simp add: Let_def)
qed

subsection \<open>The list query\<close>

lemma findAll_miss:
  "cache_up w \<Longrightarrow> cache w (getCacheKey f) = None \<Longrightarrow>
     fst (findAll eng f w) = Inr (CPage (findAll_response f (eng (findAll_query f) (db w))))"
  by (simp add: findAll_def io_defs Let_def)

text \<open>
  C8, as stated, fails when the filter asks for ascending order: the field falls back to
  \<^verbatim>\<open>task.createdAt\<close>, the direction is still the requested one.
\<close>

theorem findAll_sort_fallback_counterexample:
  "''bogus'' \<notin> set sortable_fields
   \<and> orderField (findAll_query [FSortBy ''bogus'', FSortOrder ''ASC'']) = ''task.createdAt''
   \<and> orderDir (findAll_query [FSortBy ''bogus'', FSortOrder ''ASC'']) \<noteq> DESC"
  by (simp add: findAll_query_def sortable_fields_def)

text \<open>
  C8 (amended): for every list query whose requested sort field is not in the allow-listed set
  \<open>{title, createdAt, dueDate, priority, status}\<close>, \<^verbatim>\<open>findAll\<close> orders by
  \<^verbatim>\<open>createdAt\<close>, in the requested direction: ascending when \<^verbatim>\<open>sortOrder\<close> is
  \<^verbatim>\<open>'ASC'\<close>, descending otherwise.  On a cache miss the response is what the store
  returns for exactly that query.
\<close>

theorem findAll_sort_fallback:
  "(case filter_sortBy f of None \<Rightarrow> [] | Some s \<Rightarrow> s) \<notin> set sortable_fields \<longrightarrow>
     orderField (findAll_query f) = ''task.createdAt''
     \<and> orderDir (findAll_query f) = (if filter_sortOrder f = Some ''ASC'' then ASC else DESC)
     \<and> (cache_up w \<and> cache w (getCacheKey f) = None \<longrightarrow>
          fst (findAll eng f w) = Inr (CPage (findAll_response f (eng (findAll_query f) (db w)))))"
  by (simp add: findAll_query_def Let_def findAll_miss)

theorem findAll_sort_fallback_witness:
  "''bogus'' \<notin> set sortable_fields
   \<and> cache_up one_task_world
   \<and> cache one_task_world (getCacheKey [FSortBy ''bogus'', FSortOrder ''ASC'']) = None
   \<and> orderField (findAll_query [FSortBy ''bogus'', FSortOrder ''ASC'']) = ''task.createdAt''
   \<and> orderDir (findAll_query [FSortBy ''bogus'', FSortOrder ''ASC'']) = ASC
   \<and> fst (findAll all_rows [FSortBy ''bogus'', FSortOrder ''ASC''] one_task_world) =
       Inr (CPage \<lparr>data = [sample_task], meta_total = 1, meta_page = 1, meta_limit = 10,
                   meta_totalPages = Num 1\<rparr>)"
  using findAll_sort_fallback [of "[FSortBy ''bogus'', FSortOrder ''ASC'']" one_task_world all_rows]
  by (simp add: sortable_fields_def one_task_world_def empty_world_def all_rows_def
      findAll_response_def ceil_quot_def ceil_div_def)

subsection \<open>The job consumer\<close>

lemma status_of_js_None: "status_of_js v = None \<longleftrightarrow> v \<notin> JStr ` set TaskStatus_values"
  by (cases v) (auto simp: TaskStatus_values_def)

lemma destructure_properties: "\<not> nullish d \<Longrightarrow> destructure d = return (properties d)"
proof (cases d)
  case (Primitive v)
  assume "\<not> nullish d"
  with Primitive show ?thesis by (cases v) (simp_all add: nullish_def)
next
  case (Object obj)
  then show ?thesis by simp
qed

text \<open>
  On a payload that is an object, or any primitive other than \<^verbatim>\<open>null\<close> and
  \<^verbatim>\<open>undefined\<close>, a \<^verbatim>\<open>task-status-update\<close> job whose \<^verbatim>\<open>taskId\<close> is missing
  (or falsy) or whose status is missing or not a value of the enum, and any job of an
  unrecognized kind, whatever its payload, makes \<^verbatim>\<open>process\<close> return a
  \<^verbatim>\<open>{success: false}\<close> result without throwing; the store is left as it was.
\<close>

lemma process_malformed_job_terminal:
  "(job_name job = ''task-status-update'' \<and> \<not> nullish (job_data job)
      \<and> (\<not> truthy (field (properties (job_data job)) ''taskId'')
           \<or> field (properties (job_data job)) ''status'' \<notin> JStr ` set TaskStatus_values))
    \<or> (job_name job \<noteq> ''task-status-update'' \<and> job_name job \<noteq> ''overdue-tasks-notification'')
   \<longrightarrow> terminal_failure (fst (process job w)) \<and> \<not> retry_signal (fst (process job w))
       \<and> db (snd (process job w)) = db w"
  by (auto simp add: process_def handleStatusUpdate_def destructure_properties io_defs Let_def
      terminal_failure_def retry_signal_def status_of_js_None [symmetric])

lemma process_malformed_job_terminal_examples:
  "terminal_failure
     (fst (process (status_update_job (Object [(''status'', JStr ''COMPLETED'')])) one_task_world))
   \<and> terminal_failure
     (fst (process (status_update_job (Object [(''taskId'', JStr ''t1'')])) one_task_world))
   \<and> terminal_failure
     (fst (process (status_update_job (Object [(''taskId'', JStr ''t1''), (''status'', JStr ''DONE'')]))
        one_task_world))
   \<and> terminal_failure
     (fst (process (status_update_job (Primitive (JNum 42))) one_task_world))
   \<and> terminal_failure
     (fst (process ((overdue_job ''t1'')\<lparr>job_name := ''send-email''\<rparr>) one_task_world))"
  using
    process_malformed_job_terminal
      [of "status_update_job (Object [(''status'', JStr ''COMPLETED'')])" one_task_world]
    process_malformed_job_terminal
      [of "status_update_job (Object [(''taskId'', JStr ''t1'')])" one_task_world]
    process_malformed_job_terminal
      [of "status_update_job (Object [(''taskId'', JStr ''t1''), (''status'', JStr ''DONE'')])" one_task_world]
    process_malformed_job_terminal
      [of "status_update_job (Primitive (JNum 42))" one_task_world]
    process_malformed_job_terminal
      [of "(overdue_job ''t1'')\<lparr>job_name := ''send-email''\<rparr>" one_task_world]
  by (simp add: status_update_job_def overdue_job_def field_def TaskStatus_values_def nullish_def)

text \<open>
  C7: a \<^verbatim>\<open>task-status-update\<close> job whose payload is missing \<^verbatim>\<open>taskId\<close> or
  \<^verbatim>\<open>status\<close>, or whose status is not a value of the enum, and any job of an unrecognized
  kind, is reported by a returned \<^verbatim>\<open>{success: false}\<close>, without throwing.  The guard of
  \<^verbatim>\<open>handleStatusUpdate\<close> does so for every payload it gets to see (the lemma above), but
  the destructuring on the line before it throws on a \<^verbatim>\<open>null\<close> payload: the job that
  misses both fields altogether makes \<^verbatim>\<open>process\<close> throw a \<^verbatim>\<open>TypeError\<close>, the
  signal of a failure to retry.
\<close>

theorem status_update_null_payload_retried:
  "fst (process (status_update_job (Primitive JNull)) one_task_world) = Inl TypeError
   \<and> retry_signal (fst (process (status_update_job (Primitive JNull)) one_task_world))
   \<and> \<not> terminal_failure (fst (process (status_update_job (Primitive JNull)) one_task_world))"
  by (simp add: process_def handleStatusUpdate_def io_defs status_update_job_def
      terminal_failure_def retry_signal_def)

text \<open>
  C5, as stated, fails: for a task that is gone, \<^verbatim>\<open>findOne\<close> throws
  \<^verbatim>\<open>NotFoundException\<close>, the handler logs and rethrows it, and so does
  \<^verbatim>\<open>process\<close>.  The consumer throws, which is the signal of a failure to retry.
\<close>

theorem overdue_deleted_task_counterexample:
  "fst (findOne ''t1'' empty_world) = Inl (NotFoundException ''t1'')
   \<and> retry_signal (fst (process (overdue_job ''t1'') empty_world))
   \<and> \<not> terminal_failure (fst (process (overdue_job ''t1'') empty_world))"
  by (simp add: process_def handleOverdueTasks_def findOne_def io_defs Let_def terminal_failure_def
      retry_signal_def overdue_job_def empty_world_def field_def)

text \<open>
  C5 (amended): for every \<^verbatim>\<open>overdue-tasks-notification\<close> job whose \<^verbatim>\<open>taskId\<close>
  no longer exists (\<^verbatim>\<open>findOne\<close> raises \<^verbatim>\<open>NotFound\<close>), the consumer logs the error
  (at error level, once in the handler and once in \<^verbatim>\<open>process\<close>) and rethrows it:
  \<^verbatim>\<open>process\<close> throws the \<^verbatim>\<open>NotFound\<close> error, which signals a failure eligible for
  retry, and returns no \<^verbatim>\<open>{success: false}\<close> result.
\<close>

theorem overdue_deleted_task_rethrown:
  "job_name job = ''overdue-tasks-notification'' \<and> job_data job = Object obj
     \<and> field obj ''taskId'' = JStr tid
     \<and> tid \<noteq> [] \<and> fst (findOne tid w) = Inl (NotFoundException tid)
   \<longrightarrow> fst (process job w) = Inl (NotFoundException tid)
       \<and> retry_signal (fst (process job w)) \<and> \<not> terminal_failure (fst (process job w))
       \<and> trace (snd (process job w)) =
           trace w @ [Log LDebug, CacheGet (''task:'' @ tid), Log LError, Log LError]
       \<and> Log LError \<in> set (trace (snd (process job w)))"
  by (auto simp add: process_def handleOverdueTasks_def findOne_def io_defs Let_def
      terminal_failure_def retry_signal_def split: option.splits if_splits)

theorem overdue_deleted_task_rethrown_witness:
  "fst (findOne ''t1'' empty_world) = Inl (NotFoundException ''t1'')
   \<and> fst (process (overdue_job ''t1'') empty_world) = Inl (NotFoundException ''t1'')
   \<and> trace (snd (process (overdue_job ''t1'') empty_world)) =
       [Log LDebug, CacheGet ''task:t1'', Log LError, Log LError]"
proof -
  have "fst (findOne ''t1'' empty_world) = Inl (NotFoundException ''t1'')"
    by (simp add: findOne_def io_defs Let_def empty_world_def)
  then show ?thesis
    using overdue_deleted_task_rethrown
      [of "overdue_job ''t1''" "[(''taskId'', JStr ''t1'')]" "''t1''" empty_world]
    by (simp add: overdue_job_def field_def empty_world_def)
qed

subsection \<open>Cache failures\<close>

lemma findOne_miss:
  "cache_up w \<Longrightarrow> cache w (''task:'' @ tid) = None \<Longrightarrow>
   find (\<lambda>t. task_id t = tid) (db w) = Some t \<Longrightarrow>
     fst (findOne tid w) = Inr (CTask t)"
  by (simp add: findOne_def io_defs Let_def)

text \<open>
  C4, as stated, fails: no cache call is guarded.  With the cache unavailable and the task in
  the store, \<^verbatim>\<open>findAll\<close>, \<^verbatim>\<open>findOne\<close> and \<^verbatim>\<open>updateStatus\<close> fail with the
  error of the cache.
\<close>

theorem cache_failure_propagates_counterexample:
  "find (\<lambda>t. task_id t = ''t1'') (db cache_down_world) = Some sample_task
   \<and> fst (findAll all_rows [] cache_down_world) = Inl CacheUnavailable
   \<and> fst (findOne ''t1'' cache_down_world) = Inl CacheUnavailable
   \<and> fst (updateStatus ''t1'' COMPLETED cache_down_world) = Inl CacheUnavailable"
  by (simp add: findAll_def findOne_def updateStatus_def io_defs Let_def cache_down_world_def
      one_task_world_def empty_world_def sample_task_def)

text \<open>
  C4 (amended): a cache failure propagates to the caller.  With the cache unavailable, the
  \<^verbatim>\<open>get\<close>, \<^verbatim>\<open>set\<close> and \<^verbatim>\<open>delete\<close> of \<^verbatim>\<open>CacheService\<close>, the reads
  \<^verbatim>\<open>findAll\<close> and \<^verbatim>\<open>findOne\<close>, and the mutation \<^verbatim>\<open>create\<close> all fail with the
  error of the cache.  A read returns the store's result when its cache calls go through and
  the lookup is a miss.
\<close>

theorem cache_failure_propagates:
  "(\<not> cache_up w \<longrightarrow>
       fst (CacheService_get key w) = Inl CacheUnavailable
     \<and> fst (CacheService_set key v ttl w) = Inl CacheUnavailable
     \<and> fst (CacheService_delete key w) = Inl CacheUnavailable
     \<and> fst (findAll eng f w) = Inl CacheUnavailable
     \<and> fst (findOne tid w) = Inl CacheUnavailable
     \<and> fst (create gen dto w) = Inl CacheUnavailable)
   \<and> (cache_up w \<and> cache w (getCacheKey f) = None \<longrightarrow>
       fst (findAll eng f w) = Inr (CPage (findAll_response f (eng (findAll_query f) (db w)))))
   \<and> (\<forall>t. cache_up w \<and> cache w (''task:'' @ tid) = None
            \<and> find (\<lambda>t. task_id t = tid) (db w) = Some t \<longrightarrow>
       fst (findOne tid w) = Inr (CTask t))"
  by (simp add: findAll_miss findOne_miss)
     (simp add: CacheService_get_def CacheService_set_def CacheService_delete_def
       findAll_def findOne_def create_def io_defs Let_def)

theorem cache_failure_propagates_witness:
  "\<not> cache_up cache_down_world
   \<and> fst (CacheService_get ''task:t1'' cache_down_world) = Inl CacheUnavailable
   \<and> fst (findAll all_rows [] cache_down_world) = Inl CacheUnavailable
   \<and> fst (create sample_gen sample_dto cache_down_world) = Inl CacheUnavailable
   \<and> cache_up one_task_world \<and> cache one_task_world (getCacheKey []) = None
   \<and> fst (findAll all_rows [] one_task_world) =
       Inr (CPage \<lparr>data = [sample_task], meta_total = 1, meta_page = 1, meta_limit = 10,
                   meta_totalPages = Num 1\<rparr>)
   \<and> fst (findOne ''t1'' one_task_world) = Inr (CTask sample_task)"
  using
    cache_failure_propagates
      [of cache_down_world "''task:t1''" _ _ all_rows "[]" "''t1''" sample_gen sample_dto]
    cache_failure_propagates [of one_task_world _ _ _ all_rows "[]" "''t1''"]
  by (simp add: cache_down_world_def one_task_world_def empty_world_def all_rows_def
      findAll_response_def ceil_quot_def ceil_div_def sample_task_def)

subsection \<open>Bulk status update\<close>

lemma bulkUpdateStatus_step_frame:
  "bulkUpdateStatus_step st tid w = (r, w') \<Longrightarrow>
     db w' = db w \<and> cache_up w' = cache_up w \<and> (cache_up w \<longrightarrow> r = Inr ())"
  by (auto simp add: bulkUpdateStatus_step_def io_defs Let_def split: if_splits)

lemma bulk_loop_frame:
  "for_each (bulkUpdateStatus_step st) ids w = (r, w') \<Longrightarrow>
     db w' = db w \<and> cache_up w' = cache_up w \<and> (cache_up w \<longrightarrow> r = Inr ())"
proof (induction ids arbitrary: w)
  case Nil
  then show ?case by (auto simp: return_def)
next
  case (Cons tid ids)
  obtain r1 w1 where s: "bulkUpdateStatus_step st tid w = (r1, w1)"
    by force
  note f = bulkUpdateStatus_step_frame [OF s]
  show ?case
  proof (cases r1)
    case (Inl e)
    with Cons.prems s f show ?thesis by (auto simp: bind_def)
  next
    case (Inr u)
    with Cons.prems s have "for_each (bulkUpdateStatus_step st) ids w1 = (r, w')"
      by (simp add: bind_def)
    from Cons.IH [OF this] f show ?thesis by simp
  qed
qed

lemma invalidate_frame:
  "invalidateTaskCache w = (r, w') \<Longrightarrow>
     db w' = db w \<and> cache_up w' = cache_up w \<and> (cache_up w \<longrightarrow> r = Inr ())"
  by (auto simp add: io_defs Let_def split: if_splits)

lemma qb_update_status_result:
  "qb_update_status ids st w = (r, w') \<Longrightarrow>
     r = Inr (matching ids (db w)) \<and> db w' = set_status ids st (db w) \<and> cache_up w' = cache_up w"
  by (auto simp add: qb_update_status_def emit_def matching_def set_status_def)

lemma bulkUpdateStatus_db:
  "db (snd (bulkUpdateStatus ids st w)) = set_status ids st (db w)"
proof (cases "ids = []")
  case True
  then show ?thesis by (simp add: bulkUpdateStatus_def return_def set_status_def)
next
  case False
  then show ?thesis
    by (auto simp add: bulkUpdateStatus_def bind_def return_def
        split: prod.splits sum.splits
        dest!: qb_update_status_result bulk_loop_frame invalidate_frame)
qed

lemma bulkUpdateStatus_cache_up:
  "cache_up (snd (bulkUpdateStatus ids st w)) = cache_up w"
  by (auto simp add: bulkUpdateStatus_def bind_def return_def
        split: prod.splits sum.splits
        dest!: qb_update_status_result bulk_loop_frame invalidate_frame)

lemma bulkUpdateStatus_returns:
  "cache_up w \<Longrightarrow> fst (bulkUpdateStatus ids st w) = Inr (matching ids (db w))"
  by (auto simp add: bulkUpdateStatus_def bind_def return_def matching_def
        split: prod.splits sum.splits
        dest!: qb_update_status_result bulk_loop_frame invalidate_frame)

lemma set_status_idem: "set_status ids st (set_status ids st rows) = set_status ids st rows"
  by (induction rows) (simp_all add: set_status_def)

lemma matching_set_status: "matching ids (set_status ids st rows) = matching ids rows"
  by (induction rows) (simp_all add: set_status_def matching_def)

lemma bulk_loop_down:
  "\<not> cache_up w \<Longrightarrow> ids \<noteq> [] \<Longrightarrow>
     fst (for_each (bulkUpdateStatus_step st) ids w) = Inl CacheUnavailable"
  by (cases ids) (simp_all add: bulkUpdateStatus_step_def io_defs Let_def)

lemma bulkUpdateStatus_down:
  assumes "\<not> cache_up w" "ids \<noteq> []"
  shows "fst (bulkUpdateStatus ids st w) = Inl CacheUnavailable"
proof -
  obtain r1 w1 where q: "qb_update_status ids st w = (r1, w1)" by force
  note p = qb_update_status_result [OF q]
  obtain r2 w2 where l: "for_each (bulkUpdateStatus_step st) ids w1 = (r2, w2)" by force
  from assms p have "fst (for_each (bulkUpdateStatus_step st) ids w1) = Inl CacheUnavailable"
    by (simp add: bulk_loop_down)
  with l have "r2 = Inl CacheUnavailable" by simp
  with assms q p l show ?thesis
    by (simp add: bulkUpdateStatus_def bind_def)
qed

lemma bulkUpdateStatus_same_outcome:
  "fst (bulkUpdateStatus ids st (snd (bulkUpdateStatus ids st w))) = fst (bulkUpdateStatus ids st w)"
proof (cases "cache_up w")
  case True
  then show ?thesis
    by (simp add: bulkUpdateStatus_returns bulkUpdateStatus_cache_up bulkUpdateStatus_db
        matching_set_status)
next
  case False
  show ?thesis
  proof (cases "ids = []")
    case True
    then show ?thesis by (simp add: bulkUpdateStatus_def return_def)
  next
    case ne: False
    with False show ?thesis
      by (simp add: bulkUpdateStatus_down bulkUpdateStatus_cache_up)
  qed
qed

text \<open>
  C9: for every list of ids (empty or not) and status \<open>S\<close>, applying
  \<^verbatim>\<open>bulkUpdateStatus(ids, S)\<close> twice in a row leaves the store in the same state as
  applying it once (every row with a listed id has status \<open>S\<close>, the others are untouched), and
  the second call has the same outcome as the first: both report the same affected count, the
  number of rows with a listed id, which is what they return whenever the cache is reachable.
\<close>

theorem bulkUpdateStatus_idempotent:
  "(let once = bulkUpdateStatus ids st w; twice = bulkUpdateStatus ids st (snd once) in
      db (snd once) = set_status ids st (db w)
      \<and> db (snd twice) = db (snd once)
      \<and> fst twice = fst once
      \<and> (cache_up w \<longrightarrow> fst once = Inr (matching ids (db w)) \<and> fst twice = fst once))"
  by (simp add: Let_def bulkUpdateStatus_db set_status_idem bulkUpdateStatus_returns
      bulkUpdateStatus_same_outcome)

theorem bulkUpdateStatus_idempotent_witness:
  "cache_up one_task_world
   \<and> fst (bulkUpdateStatus [''t1'', ''t9''] COMPLETED one_task_world) = Inr 1
   \<and> fst (bulkUpdateStatus [''t1'', ''t9''] COMPLETED
            (snd (bulkUpdateStatus [''t1'', ''t9''] COMPLETED one_task_world))) = Inr 1
   \<and> db (snd (bulkUpdateStatus [''t1'', ''t9''] COMPLETED one_task_world)) =
        [sample_task\<lparr>status := COMPLETED\<rparr>]
   \<and> db (snd (bulkUpdateStatus [''t1'', ''t9''] COMPLETED
            (snd (bulkUpdateStatus [''t1'', ''t9''] COMPLETED one_task_world)))) =
        [sample_task\<lparr>status := COMPLETED\<rparr>]"
  using bulkUpdateStatus_idempotent [of "[''t1'', ''t9'']" COMPLETED one_task_world]
  by (simp add: Let_def one_task_world_def empty_world_def set_status_def matching_def
      sample_task_def)

subsection \<open>Updates and the queue\<close>

lemma find_replace:
  "find (\<lambda>t. task_id t = tid) rows = Some old \<Longrightarrow> task_id new = tid \<Longrightarrow>
     find (\<lambda>t. task_id t = tid) (map (\<lambda>t. if task_id t = tid then new else t) rows) = Some new"
  by (induction rows) (auto split: if_splits)

lemma find_Some_id: "find (\<lambda>t. task_id t = tid) rows = Some t \<Longrightarrow> task_id t = tid \<and> tid \<in> task_id ` set rows"
  by (induction rows) (auto split: if_splits)

lemma merge_id: "task_id (merge task dto) = task_id task"
  by (simp add: merge_def)

lemma enqueues_emit:
  "enqueues (emit e w) = enqueues w @ (if is_enqueue e then [e] else [])"
  by (simp add: enqueues_def emit_def)

lemma cm_del_quiet:
  "cm_del k w = (r, w') \<Longrightarrow>
     db w' = db w \<and> queue w' = queue w \<and> enqueues w' = enqueues w"
  by (auto simp add: cm_del_def Let_def enqueues_def emit_def split: if_splits)

lemma logger_quiet:
  "logger l w = (r, w') \<Longrightarrow>
     db w' = db w \<and> queue w' = queue w \<and> enqueues w' = enqueues w"
  by (auto simp add: logger_def enqueues_def emit_def)

lemma invalidate_quiet:
  "invalidateTaskCache w = (r, w') \<Longrightarrow>
     db w' = db w \<and> queue w' = queue w \<and> enqueues w' = enqueues w"
  by (auto simp add: io_defs Let_def enqueues_def split: if_splits)

lemma enqueue_step:
  "try_catch (queue_add name payload n d) (\<lambda>err. logger LError) w = (r, w') \<Longrightarrow>
     r = Inr () \<and> db w' = db w \<and> enqueues w' = enqueues w @ [EnqueueAttempt name payload]"
  by (auto simp add: io_defs Let_def enqueues_def split: if_splits)

lemma repo_save_existing:
  "find (\<lambda>t. task_id t = tid) (db w) = Some old \<Longrightarrow> task_id new = tid \<Longrightarrow>
   repo_save new w = (r, w') \<Longrightarrow>
     r = Inr new \<and> find (\<lambda>t. task_id t = tid) (db w') = Some new
     \<and> queue w' = queue w \<and> enqueues w' = enqueues w"
  using find_Some_id [of tid "db w" old] find_replace [of tid "db w" old new]
  by (auto simp add: repo_save_def emit_def enqueues_def)

lemma update_success:
  assumes "fst (update tid dto w) = Inr saved"
  shows "\<exists>task. row tid w = Some task \<and> saved = merge task dto
           \<and> row tid (snd (update tid dto w)) = Some saved
           \<and> enqueues (snd (update tid dto w)) =
               enqueues w @
                 (if status task \<noteq> status saved
                  then [EnqueueAttempt ''task-status-update''
                          (status_update_payload tid (status saved))]
                  else [])
           \<and> (status task = status saved \<longrightarrow> queue (snd (update tid dto w)) = queue w)"
proof (cases "row tid w")
  case None
  with assms show ?thesis
    by (simp add: update_def row_def io_defs)
next
  case (Some task)
  let ?w0 = "emit TxBegin w"
  have f0: "find (\<lambda>t. task_id t = tid) (db ?w0) = Some task"
    using Some by (simp add: row_def emit_def)
  have m: "task_id (merge task dto) = tid"
    using find_Some_id [of tid "db w" task] Some by (simp add: row_def merge_id)
  obtain r1 w1 where s1: "repo_save (merge task dto) ?w0 = (r1, w1)" by force
  note p1 = repo_save_existing [OF f0 m s1]
  obtain r2 w2 where s2:
    "(if status task \<noteq> status (merge task dto)
      then try_catch (queue_add ''task-status-update''
             (status_update_payload (task_id (merge task dto)) (status (merge task dto))) 3 1000)
             (\<lambda>err. logger LError)
      else return ()) w1 = (r2, w2)" by force
  have p2: "r2 = Inr () \<and> db w2 = db w1
      \<and> enqueues w2 = enqueues w1 @
            (if status task \<noteq> status (merge task dto)
             then [EnqueueAttempt ''task-status-update''
                     (status_update_payload tid (status (merge task dto)))]
             else [])
      \<and> (status task = status (merge task dto) \<longrightarrow> queue w2 = queue w1)"
    using s2 m enqueue_step [of "''task-status-update''" _ 3 1000 w1 r2 w2]
    by (auto simp add: return_def split: if_splits)
  obtain r3 w3 where s3: "invalidateTaskCache w2 = (r3, w3)" by force
  note p3 = invalidate_quiet [OF s3]
  obtain r4 w4 where s4: "cm_del (''task:'' @ tid) w3 = (r4, w4)" by force
  note p4 = cm_del_quiet [OF s4]
  obtain r5 w5 where s5: "logger LDebug w4 = (r5, w5)" by force
  note p5 = logger_quiet [OF s5]
  have e0: "enqueues ?w0 = enqueues w" "queue ?w0 = queue w"
    by (simp_all add: enqueues_emit) (simp add: emit_def)
  have run: "update tid dto w =
      (case r3 of Inl e \<Rightarrow> (Inl e, emit TxRollback (w3\<lparr>db := db w\<rparr>))
       | Inr _ \<Rightarrow> (case r4 of Inl e \<Rightarrow> (Inl e, emit TxRollback (w4\<lparr>db := db w\<rparr>))
       | Inr _ \<Rightarrow> (case r5 of Inl e \<Rightarrow> (Inl e, emit TxRollback (w5\<lparr>db := db w\<rparr>))
       | Inr _ \<Rightarrow> (Inr (merge task dto), emit TxCommit w5))))"
    using f0 s1 p1 s2 p2 s3 s4 s5
    by (simp add: update_def transaction_def bind_def return_def repo_findOne_def Let_def
        split: sum.splits)
  from assms run have ok: "saved = merge task dto" "snd (update tid dto w) = emit TxCommit w5"
    by (auto split: sum.splits)
  have "row tid (emit TxCommit w5) = Some (merge task dto)"
    using p1 p2 p3 p4 p5 by (simp add: row_def emit_def)
  moreover have "enqueues (emit TxCommit w5) =
      enqueues w @
        (if status task \<noteq> status (merge task dto)
         then [EnqueueAttempt ''task-status-update''
                 (status_update_payload tid (status (merge task dto)))]
         else [])"
    using p1 p2 p3 p4 p5 e0 by (simp add: enqueues_emit)
  moreover have "status task = status (merge task dto) \<longrightarrow> queue (emit TxCommit w5) = queue w"
    using p1 p2 p3 p4 p5 e0 by (simp add: emit_def)
  ultimately show ?thesis
    using Some ok by simp
qed

lemma create_enqueues:
  "enqueues (snd (create gen dto w)) =
     enqueues w @
       [EnqueueAttempt ''task-status-update''
          (status_update_payload (gen_id gen) (status (repo_create gen dto)))]"
  by (cases "cache_up w"; cases "queue_up w")
     (simp_all add: create_def io_defs Let_def enqueues_def repo_create_def)

text \<open>
  C10: for every successful call to \<^verbatim>\<open>update(id, patch)\<close>, the enqueue of a
  \<^verbatim>\<open>task-status-update\<close> job (carrying the task's id and its new status) is attempted, once,
  if the persisted status after the update differs from the status before it, and no enqueue of
  any kind is attempted otherwise: an update that leaves the status unchanged leaves the queue
  untouched.  \<^verbatim>\<open>create\<close> attempts exactly one enqueue, of a \<^verbatim>\<open>task-status-update\<close>
  job for the new task, in every call.
\<close>

theorem update_enqueues_iff_status_changes:
  "(\<forall>saved. fst (update tid patch w) = Inr saved \<longrightarrow>
      (\<exists>task. row tid w = Some task \<and> row tid (snd (update tid patch w)) = Some saved
         \<and> enqueues (snd (update tid patch w)) =
             enqueues w @
               (if status task \<noteq> status saved
                then [EnqueueAttempt ''task-status-update''
                        [(''taskId'', JStr tid), (''status'', JStr (status_value (status saved)))]]
                else [])
         \<and> (status task = status saved \<longrightarrow> queue (snd (update tid patch w)) = queue w)))
   \<and> enqueues (snd (create gen dto w)) =
       enqueues w @
         [EnqueueAttempt ''task-status-update''
            [(''taskId'', JStr (gen_id gen)),
             (''status'', JStr (status_value (status (repo_create gen dto))))]]"
proof -
  have "\<exists>task. row tid w = Some task \<and> row tid (snd (update tid patch w)) = Some saved
         \<and> enqueues (snd (update tid patch w)) =
             enqueues w @
               (if status task \<noteq> status saved
                then [EnqueueAttempt ''task-status-update''
                        [(''taskId'', JStr tid), (''status'', JStr (status_value (status saved)))]]
                else [])
         \<and> (status task = status saved \<longrightarrow> queue (snd (update tid patch w)) = queue w)"
    if "fst (update tid patch w) = Inr saved" for saved
  proof -
    from update_success [OF that] obtain task where
      "row tid w = Some task" "row tid (snd (update tid patch w)) = Some saved"
      "enqueues (snd (update tid patch w)) =
         enqueues w @
           (if status task \<noteq> status saved
            then [EnqueueAttempt ''task-status-update'' (status_update_payload tid (status saved))]
            else [])"
      "status task = status saved \<longrightarrow> queue (snd (update tid patch w)) = queue w"
      by blast
    then show ?thesis
      by (intro exI [of _ task]) (simp add: status_update_payload_def)
  qed
  moreover have "enqueues (snd (create gen dto w)) =
       enqueues w @
         [EnqueueAttempt ''task-status-update''
            [(''taskId'', JStr (gen_id gen)),
             (''status'', JStr (status_value (status (repo_create gen dto))))]]"
    using create_enqueues [of gen dto w] by (simp add: status_update_payload_def)
  ultimately show ?thesis by blast
qed

theorem update_enqueues_iff_status_changes_witness:
  "fst (update ''t1'' complete_patch one_task_world) = Inr (sample_task\<lparr>status := COMPLETED\<rparr>)
   \<and> row ''t1'' (snd (update ''t1'' complete_patch one_task_world)) =
        Some (sample_task\<lparr>status := COMPLETED\<rparr>)
   \<and> enqueues (snd (update ''t1'' complete_patch one_task_world)) =
        [EnqueueAttempt ''task-status-update''
           [(''taskId'', JStr ''t1''), (''status'', JStr ''COMPLETED'')]]
   \<and> fst (update ''t1'' rename_patch one_task_world) = Inr (sample_task\<lparr>title := ''final report''\<rparr>)
   \<and> enqueues (snd (update ''t1'' rename_patch one_task_world)) = []
   \<and> queue (snd (update ''t1'' rename_patch one_task_world)) = []
   \<and> enqueues (snd (create sample_gen sample_dto one_task_world)) =
        [EnqueueAttempt ''task-status-update''
           [(''taskId'', JStr ''t2''), (''status'', JStr ''PENDING'')]]"
proof -
  have a: "fst (update ''t1'' complete_patch one_task_world) = Inr (sample_task\<lparr>status := COMPLETED\<rparr>)"
    by (simp add: update_def io_defs Let_def one_task_world_def empty_world_def sample_task_def
        complete_patch_def merge_def)
  have b: "fst (update ''t1'' rename_patch one_task_world) = Inr (sample_task\<lparr>title := ''final report''\<rparr>)"
    by (simp add: update_def io_defs Let_def one_task_world_def empty_world_def sample_task_def
        rename_patch_def merge_def)
  have r: "row ''t1'' one_task_world = Some sample_task"
    by (simp add: row_def one_task_world_def empty_world_def sample_task_def)
  have e: "enqueues one_task_world = []" "queue one_task_world = []"
    by (simp_all add: enqueues_def one_task_world_def empty_world_def)
  have g: "gen_id sample_gen = ''t2''" "status (repo_create sample_gen sample_dto) = PENDING"
    by (simp_all add: sample_gen_def sample_dto_def repo_create_def)
  have c: "row ''t1'' (snd (update ''t1'' complete_patch one_task_world)) =
        Some (sample_task\<lparr>status := COMPLETED\<rparr>)
      \<and> enqueues (snd (update ''t1'' complete_patch one_task_world)) =
        [EnqueueAttempt ''task-status-update''
           [(''taskId'', JStr ''t1''), (''status'', JStr ''COMPLETED'')]]"
    using a r e
      update_enqueues_iff_status_changes [of "''t1''" complete_patch one_task_world sample_gen sample_dto]
    by (auto simp add: sample_task_def)
  have d: "enqueues (snd (update ''t1'' rename_patch one_task_world)) = []
      \<and> queue (snd (update ''t1'' rename_patch one_task_world)) = []"
    using b r e
      update_enqueues_iff_status_changes [of "''t1''" rename_patch one_task_world sample_gen sample_dto]
    by (auto simp add: sample_task_def)
  have f: "enqueues (snd (create sample_gen sample_dto one_task_world)) =
        [EnqueueAttempt ''task-status-update''
           [(''taskId'', JStr ''t2''), (''status'', JStr ''PENDING'')]]"
    using e g
      update_enqueues_iff_status_changes [of "''t1''" rename_patch one_task_world sample_gen sample_dto]
    by simp
  show ?thesis
    using a b c d f by simp
qed

subsection \<open>Cache keys\<close>

text \<open>
  C3, as stated, fails: \<^verbatim>\<open>JSON.stringify\<close> walks the properties in insertion order.
  Two filters with the same status and search text, built in a different order, get
  different keys.
\<close>

theorem cache_key_order_counterexample:
  "wf_filter [FStatus ''PENDING'', FQ ''report''] \<and> wf_filter [FQ ''report'', FStatus ''PENDING'']
   \<and> filter_values [FStatus ''PENDING'', FQ ''report''] =
       filter_values [FQ ''report'', FStatus ''PENDING'']
   \<and> getCacheKey [FStatus ''PENDING'', FQ ''report''] \<noteq>
       getCacheKey [FQ ''report'', FStatus ''PENDING'']"
  by (simp add: wf_filter_def filter_values_def getCacheKey_def JSON_stringify_def
      json_string_def json_escape_def)

lemma absent_None:
  "n \<notin> field_name ` set f \<Longrightarrow>
     (n = ''status'' \<longrightarrow> filter_status f = None) \<and>
     (n = ''priority'' \<longrightarrow> filter_priority f = None) \<and>
     (n = ''q'' \<longrightarrow> filter_q f = None) \<and>
     (n = ''page'' \<longrightarrow> filter_page f = None) \<and>
     (n = ''limit'' \<longrightarrow> filter_limit f = None) \<and>
     (n = ''sortBy'' \<longrightarrow> filter_sortBy f = None) \<and>
     (n = ''sortOrder'' \<longrightarrow> filter_sortOrder f = None)"
proof (induction f)
  case Nil
  then show ?case by simp
next
  case (Cons a f)
  then show ?case by (cases a) auto
qed

lemma same_values_same_order:
  "wf_filter f \<Longrightarrow> wf_filter g \<Longrightarrow> map field_name f = map field_name g \<Longrightarrow>
   filter_values f = filter_values g \<Longrightarrow> f = g"
proof (induction f arbitrary: g)
  case Nil
  then show ?case by simp
next
  case (Cons a f)
  then obtain b g' where g: "g = b # g'" by (cases g) auto
  from Cons.prems g have n: "field_name a = field_name b" "map field_name f = map field_name g'"
    and d: "field_name a \<notin> field_name ` set f" "field_name b \<notin> field_name ` set g'"
    and w: "wf_filter f" "wf_filter g'"
    by (auto simp: wf_filter_def)
  from n(1) Cons.prems(4) g have ab: "a = b"
    by (cases a; cases b) (simp_all add: filter_values_def)
  have "filter_values f = filter_values g'"
    using Cons.prems(4) g ab absent_None [OF d(1)] absent_None [OF d(2)]
    by (cases b) (simp_all add: filter_values_def)
  with Cons.IH [OF w n(2)] ab g show ?case by simp
qed

lemma join_comma_Cons: "join_comma (x # xs) = x @ (if xs = [] then [] else '','' @ join_comma xs)"
  by (cases xs) simp_all

lemma json_string_name: "json_string (field_name a) = CHR 0x22 # field_name a @ [CHR 0x22]"
  by (cases a) (simp_all add: json_string_def json_escape_def)

lemma json_member_prefix: "\<exists>r. json_member a = CHR 0x22 # field_name a @ CHR 0x22 # r"
  by (cases a) (simp_all add: json_string_def json_escape_def)

lemma getCacheKey_Cons: "\<exists>r. getCacheKey (a # f) = ''tasks:{'' @ CHR 0x22 # field_name a @ CHR 0x22 # r"
proof -
  obtain r where "json_member a = CHR 0x22 # field_name a @ CHR 0x22 # r"
    using json_member_prefix by blast
  then show ?thesis
    by (simp add: getCacheKey_def JSON_stringify_def join_comma_Cons del: join_comma.simps)
qed

lemma getCacheKey_first_field:
  assumes "field_name a \<noteq> field_name b"
  shows "getCacheKey (a # f) \<noteq> getCacheKey (b # g)"
proof
  assume eq: "getCacheKey (a # f) = getCacheKey (b # g)"
  obtain r where a: "getCacheKey (a # f) = ''tasks:{'' @ CHR 0x22 # field_name a @ CHR 0x22 # r"
    using getCacheKey_Cons by blast
  obtain s where b: "getCacheKey (b # g) = ''tasks:{'' @ CHR 0x22 # field_name b @ CHR 0x22 # s"
    using getCacheKey_Cons by blast
  from eq a b have "field_name a @ CHR 0x22 # r = field_name b @ CHR 0x22 # s"
    by simp
  with assms show False
    by (cases a; cases b) simp_all
qed

text \<open>
  C3 (amended): the cache key of a list query is a function of the filter's field values and of
  their insertion order.  Two filter objects with identical values for status, priority, search
  text, page, limit, sortBy and sortOrder and the same field insertion order get the same key;
  two filters whose first fields differ get different keys, whatever their values.
\<close>

theorem cache_key_order_sensitive:
  "(wf_filter f \<and> wf_filter g \<and> filter_values f = filter_values g
      \<and> map field_name f = map field_name g \<longrightarrow> getCacheKey f = getCacheKey g)
   \<and> (field_name a \<noteq> field_name b \<longrightarrow> getCacheKey (a # f') \<noteq> getCacheKey (b # g'))"
  using same_values_same_order [of f g] getCacheKey_first_field [of a b f' g'] by blast

theorem cache_key_order_sensitive_witness:
  "wf_filter [FQ ''report'', FPage 2]
   \<and> filter_values [FQ ''report'', FPage 2] =
       (None, None, Some ''report'', Some 2, None, None, None)
   \<and> getCacheKey [FQ ''report'', FPage 2] =
       ''tasks:{'' @ [CHR 0x22] @ ''q'' @ [CHR 0x22] @ '':'' @ [CHR 0x22] @ ''report'' @ [CHR 0x22]
         @ '','' @ [CHR 0x22] @ ''page'' @ [CHR 0x22] @ '':2}''
   \<and> field_name (FStatus ''PENDING'') \<noteq> field_name (FQ ''report'')
   \<and> getCacheKey [FStatus ''PENDING'', FQ ''report''] \<noteq>
       getCacheKey [FQ ''report'', FStatus ''PENDING'']"
  using
    cache_key_order_sensitive
      [of "[FQ ''report'', FPage 2]" "[FQ ''report'', FPage 2]"
          "FStatus ''PENDING''" "FQ ''report''" "[FQ ''report'']" "[FStatus ''PENDING'']"]
  by (simp add: wf_filter_def filter_values_def getCacheKey_def JSON_stringify_def json_string_def
      json_escape_def json_number_def hex_digit_def)

subsection \<open>Order of effects in the mutations\<close>

lemma side_effects_after_commit:
  "list_all is_side_effect es \<Longrightarrow> only_after_commit P Committed es"
proof (induction es)
  case Nil
  then show ?case by simp
next
  case (Cons e es)
  then show ?case by (cases e) auto
qed

lemma bulkUpdateStatus_step_trace:
  "\<exists>es. trace (snd (bulkUpdateStatus_step st tid w)) = trace w @ es \<and> list_all is_side_effect es"
  by (simp add: bulkUpdateStatus_step_def io_defs Let_def)

lemma cm_del_trace:
  "\<exists>es. trace (snd (cm_del k w)) = trace w @ es \<and> list_all is_side_effect es"
  by (simp add: io_defs Let_def)

lemma for_each_trace:
  assumes "\<And>x w. \<exists>es. trace (snd (step x w)) = trace w @ es \<and> list_all is_side_effect es"
  shows "\<exists>es. trace (snd (for_each step xs w)) = trace w @ es \<and> list_all is_side_effect es"
proof (induction xs arbitrary: w)
  case Nil
  then show ?case by (simp add: return_def)
next
  case (Cons x xs)
  obtain r1 w1 where s: "step x w = (r1, w1)" by force
  obtain es1 where e1: "trace w1 = trace w @ es1" "list_all is_side_effect es1"
    using assms [of x w] s by auto
  show ?case
  proof (cases r1)
    case (Inl e)
    with s e1 show ?thesis by (simp add: bind_def)
  next
    case (Inr u)
    obtain es2 where "trace (snd (for_each step xs w1)) = trace w1 @ es2" "list_all is_side_effect es2"
      using Cons.IH [of w1] by auto
    with s e1 Inr show ?thesis by (simp add: bind_def)
  qed
qed

lemma invalidate_trace:
  "\<exists>es. trace (snd (invalidateTaskCache w)) = trace w @ es \<and> list_all is_side_effect es"
  by (simp add: io_defs Let_def)

lemma bulkUpdateStatus_trace:
  "\<exists>es. trace (snd (bulkUpdateStatus ids st w)) = trace w @ (if ids = [] then [] else DbWrite # es)
        \<and> list_all is_side_effect es"
proof (cases "ids = []")
  case True
  then show ?thesis by (auto simp add: bulkUpdateStatus_def return_def intro: exI [of _ "[]"])
next
  case False
  let ?w1 = "snd (qb_update_status ids st w)"
  have t1: "trace ?w1 = trace w @ [DbWrite]"
    by (simp add: qb_update_status_def emit_def)
  obtain r2 w2 where l: "for_each (bulkUpdateStatus_step st) ids ?w1 = (r2, w2)" by force
  obtain es2 where e2: "trace w2 = trace ?w1 @ es2" "list_all is_side_effect es2"
    using for_each_trace [of "bulkUpdateStatus_step st" ids ?w1, OF bulkUpdateStatus_step_trace] l
    by auto
  obtain es3 where e3: "trace (snd (invalidateTaskCache w2)) = trace w2 @ es3" "list_all is_side_effect es3"
    using invalidate_trace by blast
  show ?thesis
  proof (cases r2)
    case (Inl e)
    with False l t1 e2 show ?thesis
      by (auto simp add: bulkUpdateStatus_def bind_def qb_update_status_def emit_def)
  next
    case (Inr u)
    with False l t1 e2 e3 show ?thesis
      by (auto simp add: bulkUpdateStatus_def bind_def return_def qb_update_status_def emit_def
          split: prod.splits sum.splits)
  qed
qed

lemma bulkDelete_trace:
  "\<exists>es. trace (snd (bulkDelete ids w)) = trace w @ (if ids = [] then [] else DbWrite # es)
        \<and> list_all is_side_effect es"
proof (cases "ids = []")
  case True
  then show ?thesis by (auto simp add: bulkDelete_def return_def intro: exI [of _ "[]"])
next
  case False
  let ?w1 = "snd (qb_delete ids w)"
  have t1: "trace ?w1 = trace w @ [DbWrite]"
    by (simp add: qb_delete_def emit_def)
  obtain r2 w2 where l: "for_each (\<lambda>tid. cm_del (''task:'' @ tid)) ids ?w1 = (r2, w2)" by force
  obtain es2 where e2: "trace w2 = trace ?w1 @ es2" "list_all is_side_effect es2"
    using for_each_trace [of "\<lambda>tid. cm_del (''task:'' @ tid)" ids ?w1, OF cm_del_trace] l
    by auto
  obtain es3 where e3: "trace (snd (invalidateTaskCache w2)) = trace w2 @ es3" "list_all is_side_effect es3"
    using invalidate_trace by blast
  show ?thesis
  proof (cases r2)
    case (Inl e)
    with False l t1 e2 show ?thesis
      by (auto simp add: bulkDelete_def bind_def qb_delete_def emit_def)
  next
    case (Inr u)
    with False l t1 e2 e3 show ?thesis
      by (auto simp add: bulkDelete_def bind_def return_def qb_delete_def emit_def
          split: prod.splits sum.splits)
  qed
qed

lemma write_then_side_effects:
  "list_all is_side_effect es \<Longrightarrow> \<not> P DbWrite \<Longrightarrow>
     only_after_commit P Uncommitted (if b then [] else DbWrite # es)"
  using side_effects_after_commit [of es P] by simp

lemma bulkUpdateStatus_after_commit:
  assumes "trace w = []" "\<not> P DbWrite"
  shows "only_after_commit P Uncommitted (trace (snd (bulkUpdateStatus ids st w)))"
  using bulkUpdateStatus_trace [of ids st w] assms write_then_side_effects by auto

lemma bulkDelete_after_commit:
  assumes "trace w = []" "\<not> P DbWrite"
  shows "only_after_commit P Uncommitted (trace (snd (bulkDelete ids w)))"
  using bulkDelete_trace [of ids w] assms write_then_side_effects by auto

lemma create_invalidates_after_commit:
  "trace w = [] \<Longrightarrow> only_after_commit is_cache_del Uncommitted (trace (snd (create gen dto w)))"
  by (cases "cache_up w"; cases "queue_up w") (simp_all add: create_def io_defs Let_def)

lemma updateStatus_invalidates_after_commit:
  "trace w = [] \<Longrightarrow> only_after_commit is_cache_del Uncommitted (trace (snd (updateStatus tid st w)))"
  by (cases "cache_up w"; cases "find (\<lambda>t. task_id t = tid) (db w)")
     (simp_all add: updateStatus_def io_defs Let_def)

lemma remove_invalidates_after_commit:
  "trace w = [] \<Longrightarrow> only_after_commit is_cache_del Uncommitted (trace (snd (remove tid w)))"
  by (cases "cache_up w") (simp_all add: remove_def io_defs Let_def)

text \<open>
  C1: the cache invalidation of a mutation runs only after the store transaction has committed.
  \<^verbatim>\<open>create\<close>, \<^verbatim>\<open>updateStatus\<close>, \<^verbatim>\<open>remove\<close>, \<^verbatim>\<open>bulkUpdateStatus\<close> and
  \<^verbatim>\<open>bulkDelete\<close> do so (the lemmas above); \<^verbatim>\<open>update\<close> deletes the three keys inside
  the body of its transaction, before the commit.
\<close>

theorem update_invalidates_inside_transaction:
  "trace (snd (update ''t1'' complete_patch one_task_world)) =
     [TxBegin, DbWrite,
      EnqueueAttempt ''task-status-update'' [(''taskId'', JStr ''t1''), (''status'', JStr ''COMPLETED'')],
      CacheDel ''tasks:all'', CacheDel ''tasks:stats'', Log LDebug, CacheDel ''task:t1'', Log LDebug,
      TxCommit]
   \<and> \<not> only_after_commit is_cache_del Uncommitted (trace (snd (update ''t1'' complete_patch one_task_world)))"
  by (simp add: update_def io_defs Let_def one_task_world_def empty_world_def sample_task_def
      complete_patch_def merge_def status_update_payload_def)

lemma enqueue_failure_swallowed:
  "cache_up w \<Longrightarrow> \<not> queue_up w \<Longrightarrow>
     fst (create gen dto w) = Inr (repo_create gen dto)
     \<and> repo_create gen dto \<in> set (db (snd (create gen dto w)))
     \<and> Log LError \<in> set (trace (snd (create gen dto w)))
     \<and> queue (snd (create gen dto w)) = queue w"
  by (auto simp add: create_def io_defs Let_def)

lemma enqueue_failure_swallowed_update:
  "cache_up w \<Longrightarrow> \<not> queue_up w \<Longrightarrow> find (\<lambda>t. task_id t = tid) (db w) = Some task \<Longrightarrow>
     status (merge task dto) \<noteq> status task \<Longrightarrow>
     fst (update tid dto w) = Inr (merge task dto)
     \<and> Log LError \<in> set (trace (snd (update tid dto w)))"
  by (simp add: update_def io_defs Let_def)

text \<open>
  C2: the enqueue of a mutation is attempted only after the store transaction has committed.
  \<^verbatim>\<open>bulkUpdateStatus\<close> does so; \<^verbatim>\<open>create\<close> and \<^verbatim>\<open>update\<close> call the queue
  inside the body of their transaction, before the commit.  (A failed attempt is logged and
  swallowed, as the lemmas above show.)
\<close>

theorem create_enqueues_inside_transaction:
  "trace (snd (create sample_gen sample_dto empty_world)) =
     [TxBegin, DbWrite,
      EnqueueAttempt ''task-status-update'' [(''taskId'', JStr ''t2''), (''status'', JStr ''PENDING'')],
      TxCommit, CacheDel ''tasks:all'', CacheDel ''tasks:stats'', Log LDebug]
   \<and> \<not> only_after_commit is_enqueue Uncommitted (trace (snd (create sample_gen sample_dto empty_world)))
   \<and> \<not> only_after_commit is_enqueue Uncommitted (trace (snd (update ''t1'' complete_patch one_task_world)))"
  by (simp add: create_def update_def io_defs Let_def one_task_world_def empty_world_def sample_task_def
      complete_patch_def merge_def status_update_payload_def sample_gen_def sample_dto_def repo_create_def)

end
